theory Spec2Isabelle
  imports Complex_Main
begin

section \<open>Data model\<close>

text \<open>
  The repository is an Express application over mongoose models. The model below keeps
  the two collections of the core (clients and projects) as lists of documents in
  insertion order, next to the counter that stands for the generator of fresh ObjectIds.
  An ObjectId is a natural number, a date is its number of milliseconds since the epoch,
  a budget is an integer (the source's numbers are doubles; the operations used on them
  here are comparisons only).
\<close>

type_synonym oid = nat
type_synonym date = int

text \<open>
  A path or body parameter that names a document arrives as a string. mongoose casts it
  to an ObjectId and throws a CastError when the string does not have that form, which
  every handler turns into its 500 answer (the repository's own test of
  \<open>PUT /api/projects/invalid-id\<close> expects 500). \<open>Oid i\<close> is a string of ObjectId form,
  \<open>Malformed\<close> any other string.
\<close>

datatype param = Malformed | Oid oid

record client =
  c_id :: oid
  c_name :: string
  c_email :: string
  c_phone :: string
  c_company :: string
  c_address :: "string option"
  c_status :: string
  c_createdAt :: date
  c_updatedAt :: date

record project =
  p_id :: oid
  p_title :: string
  p_description :: string
  p_clientId :: oid
  p_status :: string
  p_startDate :: date
  p_endDate :: date
  p_budget :: int
  p_createdBy :: oid
  p_createdAt :: date
  p_updatedAt :: date

text \<open>\<open>req.user\<close>, as the \<open>protect\<close> middleware leaves it for the handlers.\<close>

record user =
  u_id :: oid
  u_role :: string

record store =
  clients :: "client list"
  projects :: "project list"
  next_id :: oid

text \<open>
  The answers of the handlers. An error constructor carries the \<open>message\<close> of the JSON
  body; \<open>http_status\<close> gives the status code the source sends with it. The source has
  no 409: a uniqueness or state conflict is a 400 whose message is not
  \<open>Validation error\<close>.
\<close>

record detail =
  field :: "string option"
  message :: string

datatype error =
    ValidationError "detail list"
  | Forbidden string
  | NotFound string
  | Conflict string
  | Internal string

fun http_status :: "error \<Rightarrow> nat" where
  "http_status (ValidationError ds) = 400"
| "http_status (Forbidden m) = 403"
| "http_status (NotFound m) = 404"
| "http_status (Conflict m) = 400"
| "http_status (Internal m) = 500"

section \<open>Strings\<close>

text \<open>Template literals print a count in decimal.\<close>

definition digit_char :: "nat \<Rightarrow> char" where
  "digit_char d = char_of (48 + d)"

fun string_of_nat :: "nat \<Rightarrow> string" where
  "string_of_nat n =
     (if n < 10 then [digit_char n] else string_of_nat (n div 10) @ [digit_char (n mod 10)])"

declare string_of_nat.simps [simp del]

text \<open>The number a string of decimal digits stands for.\<close>

definition decimal_value :: "string \<Rightarrow> nat" where
  "decimal_value d = foldl (\<lambda>a c. 10 * a + (of_char c - 48)) 0 d"

text \<open>
  \<open>String.prototype.toLowerCase\<close> and \<open>trim\<close>, on the ASCII range (a \<open>char\<close> is a
  byte).
\<close>

definition lower_char :: "char \<Rightarrow> char" where
  "lower_char c =
     (let n = (of_char c :: nat) in if 65 \<le> n \<and> n \<le> 90 then char_of (n + 32) else c)"

definition toLowerCase :: "string \<Rightarrow> string" where
  "toLowerCase = map lower_char"

definition isSpace :: "char \<Rightarrow> bool" where
  "isSpace c = ((of_char c :: nat) \<in> set [9, 10, 11, 12, 13, 32])"

definition trim :: "string \<Rightarrow> string" where
  "trim x = rev (dropWhile isSpace (rev (dropWhile isSpace x)))"

text \<open>JavaScript truthiness of an optional string and of an optional number.\<close>

definition truthy_str :: "string option \<Rightarrow> bool" where
  "truthy_str v = (case v of None \<Rightarrow> False | Some x \<Rightarrow> x \<noteq> [])"

definition truthy_num :: "int option \<Rightarrow> bool" where
  "truthy_num v = (case v of None \<Rightarrow> False | Some n \<Rightarrow> n \<noteq> 0)"

section \<open>What the libraries decide\<close>

text \<open>
  Four tests are made by code of the libraries, on data the repository's sources hand
  over, and are parameters of the model:
  \<^item> \<open>joi_email\<close>: Joi's \<open>.email()\<close> rule;
  \<^item> \<open>email_match\<close>: the regular expression of the \<open>match\<close> option of the client
    schema's \<open>email\<close>;
  \<^item> \<open>this_startDate\<close>: what \<open>this.startDate\<close> yields inside the validator of
    \<open>endDate\<close> when mongoose runs it as an update validator (\<open>runValidators: true\<close>).
    There \<open>this\<close> is not the stored document (mongoose binds it to the query, which
    has no such property: \<open>None\<close>, the value \<open>undefined\<close>);
  \<^item> \<open>regex_i\<close>: MongoDB's \<open>$regex\<close> with option \<open>i\<close>: the test a pattern compiles
    to, or \<open>None\<close> when the pattern is not a regular expression.
\<close>

record lib =
  joi_email :: "string \<Rightarrow> bool"
  email_match :: "string \<Rightarrow> bool"
  this_startDate :: "date option"
  regex_i :: "string \<Rightarrow> (string \<Rightarrow> bool) option"

section \<open>The document store\<close>

text \<open>
  \<open>updateOne\<close> is the store's single-document write: the first document that matches
  is replaced by its update, every other document stays as it is.
\<close>

fun updateOne :: "('a \<Rightarrow> bool) \<Rightarrow> ('a \<Rightarrow> 'a) \<Rightarrow> 'a list \<Rightarrow> 'a list" where
  "updateOne P f [] = []"
| "updateOne P f (x # xs) = (if P x then f x # xs else x # updateOne P f xs)"

fun deleteOne :: "('a \<Rightarrow> bool) \<Rightarrow> 'a list \<Rightarrow> 'a list" where
  "deleteOne P [] = []"
| "deleteOne P (x # xs) = (if P x then xs else x # deleteOne P xs)"

text \<open>\<open>Model.findById\<close>: a CastError (\<open>Inl\<close>) for a malformed id, else the document or null.\<close>

definition Client_findById :: "store \<Rightarrow> param \<Rightarrow> unit + client option" where
  "Client_findById s p =
     (case p of
        Malformed \<Rightarrow> Inl ()
      | Oid i \<Rightarrow> Inr (find (\<lambda>c. c_id c = i) (clients s)))"

definition Project_findById :: "store \<Rightarrow> param \<Rightarrow> unit + project option" where
  "Project_findById s p =
     (case p of
        Malformed \<Rightarrow> Inl ()
      | Oid i \<Rightarrow> Inr (find (\<lambda>q. p_id q = i) (projects s)))"

text \<open>
  \<open>Project.countDocuments({ clientId: id, status: { $in: ["pending", "in-progress"] } })\<close>
\<close>

definition activeProjects :: "store \<Rightarrow> oid \<Rightarrow> nat" where
  "activeProjects s i =
     length (filter (\<lambda>q. p_clientId q = i \<and> p_status q \<in> set [''pending'', ''in-progress''])
       (projects s))"

definition Project_countActive :: "store \<Rightarrow> param \<Rightarrow> unit + nat" where
  "Project_countActive s p =
     (case p of
        Malformed \<Rightarrow> Inl ()
      | Oid i \<Rightarrow> Inr (activeProjects s i))"

text \<open>
  \<open>client.status = "inactive"; await client.save()\<close>. mongoose writes the modified
  paths of the document only, and stamps \<open>updatedAt\<close> (schema option \<open>timestamps\<close>) only
  when some path is modified: saving a client that is inactive already writes nothing.
\<close>

definition Client_save_status :: "store \<Rightarrow> client \<Rightarrow> string \<Rightarrow> date \<Rightarrow> client \<times> store" where
  "Client_save_status s c st now =
     (if c_status c = st then (c, s)
      else
        (c\<lparr>c_status := st, c_updatedAt := now\<rparr>,
         s\<lparr>clients :=
             updateOne (\<lambda>d. c_id d = c_id c) (\<lambda>d. d\<lparr>c_status := st, c_updatedAt := now\<rparr>)
               (clients s)\<rparr>))"

section \<open>Request validation (Joi)\<close>

text \<open>
  A request body is modelled after JSON decoding, every field present with the type its
  schema asks for, or absent (a body with a value of another type or with another key
  is refused by Joi and is not a value of the model). A Joi object schema is the list
  of its keys, in the order of the source, each with the rule chain of its value: the
  messages of the rules that the value breaks. \<open>schema.validate(body)\<close> is called without options in every
  middleware of the repository, so with Joi's default \<open>abortEarly: true\<close>: validation
  stops at the first error. \<open>details\<close> of the answer is \<open>error.details\<close> mapped to
  \<open>{ field: detail.path[0], message }\<close>; an error of the object itself has an empty
  path, so no field.
\<close>

type_synonym 'b joi_schema = "(string \<times> ('b \<Rightarrow> string list)) list"

definition joi_key_errors :: "'b joi_schema \<Rightarrow> 'b \<Rightarrow> detail list" where
  "joi_key_errors sch b =
     concat (map (\<lambda>(k, rule). map (\<lambda>m. \<lparr>field = Some k, message = m\<rparr>) (rule b)) sch)"

text \<open>\<open>.min(1)\<close> on an object schema, with its message.\<close>

definition joi_object_min :: "nat \<Rightarrow> string \<Rightarrow> nat \<Rightarrow> detail list" where
  "joi_object_min lo m nkeys = (if nkeys < lo then [\<lparr>field = None, message = m\<rparr>] else [])"

definition joi_validate :: "bool \<Rightarrow> detail list \<Rightarrow> detail list" where
  "joi_validate abortEarly errors = (if abortEarly then take 1 errors else errors)"

definition validation_answer :: "detail list \<Rightarrow> error option" where
  "validation_answer ds = (if ds = [] then None else Some (ValidationError ds))"

definition joi_required :: "string \<Rightarrow> ('a \<Rightarrow> string list) \<Rightarrow> 'a option \<Rightarrow> string list" where
  "joi_required m rule v = (case v of None \<Rightarrow> [m] | Some x \<Rightarrow> rule x)"

definition joi_optional :: "('a \<Rightarrow> string list) \<Rightarrow> 'a option \<Rightarrow> string list" where
  "joi_optional rule v = (case v of None \<Rightarrow> [] | Some x \<Rightarrow> rule x)"

text \<open>
  \<open>Joi.string().min(lo).max(hi).trim()\<close>: the value is trimmed first (conversion is
  on by default), the empty string is refused, then the length rules apply.
\<close>

definition joi_string :: "nat \<Rightarrow> nat \<Rightarrow> string \<Rightarrow> string \<Rightarrow> string \<Rightarrow> string \<Rightarrow> string list" where
  "joi_string lo hi m_empty m_min m_max raw =
     (let x = trim raw in
      if x = [] then [m_empty]
      else if length x < lo then [m_min]
      else if hi < length x then [m_max]
      else [])"

text \<open>\<open>Joi.string().email().lowercase()\<close>\<close>

definition joi_string_email :: "lib \<Rightarrow> string \<Rightarrow> string \<Rightarrow> string \<Rightarrow> string list" where
  "joi_string_email lb m_empty m_email raw =
     (let x = toLowerCase raw in
      if x = [] then [m_empty]
      else if \<not> joi_email lb x then [m_email]
      else [])"

text \<open>\<open>Joi.string().max(hi).trim().allow("")\<close>\<close>

definition joi_string_allow_empty :: "nat \<Rightarrow> string \<Rightarrow> string \<Rightarrow> string list" where
  "joi_string_allow_empty hi m_max raw =
     (let x = trim raw in
      if x = [] then []
      else if hi < length x then [m_max]
      else [])"

text \<open>\<open>Joi.string().valid(...)\<close>\<close>

definition joi_valid :: "string list \<Rightarrow> string \<Rightarrow> string \<Rightarrow> string list" where
  "joi_valid vs m raw = (if raw \<in> set vs then [] else [m])"

text \<open>Joi's own message for an empty string, where the schema gives none.\<close>

definition joi_not_empty_message :: "string \<Rightarrow> string" where
  "joi_not_empty_message k = [CHR 0x22] @ k @ [CHR 0x22] @ '' is not allowed to be empty''"

section \<open>Client registry\<close>

text \<open>The body of \<open>POST /api/clients\<close> and of \<open>PUT /api/clients/:id\<close>.\<close>

record client_body =
  cb_name :: "string option"
  cb_email :: "string option"
  cb_phone :: "string option"
  cb_company :: "string option"
  cb_address :: "string option"
  cb_status :: "string option"

definition createClientSchema :: "lib \<Rightarrow> client_body joi_schema" where
  "createClientSchema lb =
     [(''name'', \<lambda>b. joi_required ''Name is required''
         (joi_string 2 100 ''Name is required'' ''Name must be at least 2 characters long''
            ''Name cannot exceed 100 characters'') (cb_name b)),
      (''email'', \<lambda>b. joi_required ''Email is required''
         (joi_string_email lb ''Email is required'' ''Please provide a valid email address'')
         (cb_email b)),
      (''phone'', \<lambda>b. joi_required ''Phone is required''
         (joi_string 10 20 ''Phone is required'' ''Phone must be at least 10 characters long''
            ''Phone cannot exceed 20 characters'') (cb_phone b)),
      (''company'', \<lambda>b. joi_required ''Company is required''
         (joi_string 2 100 ''Company is required''
            ''Company must be at least 2 characters long''
            ''Company cannot exceed 100 characters'') (cb_company b)),
      (''address'', \<lambda>b. joi_optional
         (joi_string_allow_empty 200 ''Address cannot exceed 200 characters'') (cb_address b)),
      (''status'', \<lambda>b. joi_optional
         (joi_valid [''active'', ''inactive''] ''Status must be either active or inactive'')
         (cb_status b))]"

definition updateClientSchema :: "lib \<Rightarrow> client_body joi_schema" where
  "updateClientSchema lb =
     [(''name'', \<lambda>b. joi_optional
         (joi_string 2 100 (joi_not_empty_message ''name'')
            ''Name must be at least 2 characters long''
            ''Name cannot exceed 100 characters'') (cb_name b)),
      (''email'', \<lambda>b. joi_optional
         (joi_string_email lb (joi_not_empty_message ''email'')
            ''Please provide a valid email address'') (cb_email b)),
      (''phone'', \<lambda>b. joi_optional
         (joi_string 10 20 (joi_not_empty_message ''phone'')
            ''Phone must be at least 10 characters long''
            ''Phone cannot exceed 20 characters'') (cb_phone b)),
      (''company'', \<lambda>b. joi_optional
         (joi_string 2 100 (joi_not_empty_message ''company'')
            ''Company must be at least 2 characters long''
            ''Company cannot exceed 100 characters'') (cb_company b)),
      (''address'', \<lambda>b. joi_optional
         (joi_string_allow_empty 200 ''Address cannot exceed 200 characters'') (cb_address b)),
      (''status'', \<lambda>b. joi_optional
         (joi_valid [''active'', ''inactive''] ''Status must be either active or inactive'')
         (cb_status b))]"

definition client_body_keys :: "client_body \<Rightarrow> nat" where
  "client_body_keys b =
     length (filter (\<lambda>v. v \<noteq> None)
       [cb_name b, cb_email b, cb_phone b, cb_company b, cb_address b, cb_status b])"

definition validateCreateClient :: "lib \<Rightarrow> client_body \<Rightarrow> error option" where
  "validateCreateClient lb b =
     validation_answer (joi_validate True (joi_key_errors (createClientSchema lb) b))"

definition validateUpdateClient :: "lib \<Rightarrow> client_body \<Rightarrow> error option" where
  "validateUpdateClient lb b =
     validation_answer (joi_validate True
       (joi_key_errors (updateClientSchema lb) b @
        joi_object_min 1 ''At least one field must be provided for update''
          (client_body_keys b)))"

text \<open>
  \<open>Client.findOne({ email })\<close> and \<open>Client.findOne({ email, _id: { $ne: id } })\<close>.
  mongoose casts a filter with the schema's setters, so the email asked for is
  lowercased (schema option \<open>lowercase: true\<close>). An absent email asks for documents
  without one, and the collection has none (the path is required).
\<close>

definition Client_findOne_email :: "store \<Rightarrow> string option \<Rightarrow> client option" where
  "Client_findOne_email s e =
     (case e of
        None \<Rightarrow> None
      | Some x \<Rightarrow> find (\<lambda>c. c_email c = toLowerCase x) (clients s))"

definition Client_findOne_email_ne :: "store \<Rightarrow> string \<Rightarrow> param \<Rightarrow> unit + client option" where
  "Client_findOne_email_ne s x p =
     (case p of
        Malformed \<Rightarrow> Inl ()
      | Oid i \<Rightarrow> Inr (find (\<lambda>c. c_email c = toLowerCase x \<and> c_id c \<noteq> i) (clients s)))"

text \<open>
  The validators of the client schema (\<open>models/Client.js\<close>), after its setters
  (\<open>trim\<close>, \<open>lowercase\<close>): \<open>required\<close> refuses the empty string, \<open>maxlength\<close>,
  \<open>match\<close>, \<open>enum\<close>.
\<close>

definition client_name_ok :: "string \<Rightarrow> bool" where
  "client_name_ok x = (x \<noteq> [] \<and> length x \<le> 100)"

definition client_email_ok :: "lib \<Rightarrow> string \<Rightarrow> bool" where
  "client_email_ok lb x = (x \<noteq> [] \<and> email_match lb x)"

definition client_phone_ok :: "string \<Rightarrow> bool" where
  "client_phone_ok x = (x \<noteq> [] \<and> length x \<le> 20)"

definition client_company_ok :: "string \<Rightarrow> bool" where
  "client_company_ok x = (x \<noteq> [] \<and> length x \<le> 100)"

definition client_address_ok :: "string \<Rightarrow> bool" where
  "client_address_ok x = (length x \<le> 200)"

definition client_status_ok :: "string \<Rightarrow> bool" where
  "client_status_ok x = (x \<in> set [''active'', ''inactive''])"

text \<open>
  \<open>Client.create({ name, email, phone, company, address, status })\<close>: \<open>Inl\<close> is the
  ValidationError mongoose throws. The new document gets a fresh id, the default status
  \<open>active\<close> when none is given, and both timestamps.
\<close>

definition Client_create :: "lib \<Rightarrow> store \<Rightarrow> client_body \<Rightarrow> date \<Rightarrow> unit + client \<times> store" where
  "Client_create lb s b now =
     (case (cb_name b, cb_email b, cb_phone b, cb_company b) of
        (Some n, Some e, Some ph, Some co) \<Rightarrow>
          (let c = \<lparr>c_id = next_id s, c_name = trim n, c_email = toLowerCase e,
                    c_phone = trim ph, c_company = trim co,
                    c_address = map_option trim (cb_address b),
                    c_status = (case cb_status b of None \<Rightarrow> ''active'' | Some st \<Rightarrow> st),
                    c_createdAt = now, c_updatedAt = now\<rparr>
           in if client_name_ok (c_name c) \<and> client_email_ok lb (c_email c) \<and>
                 client_phone_ok (c_phone c) \<and> client_company_ok (c_company c) \<and>
                 (case c_address c of None \<Rightarrow> True | Some a \<Rightarrow> client_address_ok a) \<and>
                 client_status_ok (c_status c)
              then Inr (c, s\<lparr>clients := clients s @ [c], next_id := next_id s + 1\<rparr>)
              else Inl ())
      | _ \<Rightarrow> Inl ())"

text \<open>
  \<open>Client.findByIdAndUpdate(id, updateData, { new: true, runValidators: true })\<close>.
  The update is cast with the setters, the validators run on the paths of the update
  only, \<open>updatedAt\<close> is stamped, and the updated document is returned (null when no
  document has the id).
\<close>

definition opt_ok :: "('a \<Rightarrow> bool) \<Rightarrow> 'a option \<Rightarrow> bool" where
  "opt_ok P v = (case v of None \<Rightarrow> True | Some x \<Rightarrow> P x)"

definition opt_set :: "'a option \<Rightarrow> 'a \<Rightarrow> 'a" where
  "opt_set v old = (case v of None \<Rightarrow> old | Some x \<Rightarrow> x)"

definition client_update_ok :: "lib \<Rightarrow> client_body \<Rightarrow> bool" where
  "client_update_ok lb u =
     (opt_ok client_name_ok (map_option trim (cb_name u)) \<and>
      opt_ok (client_email_ok lb) (map_option toLowerCase (cb_email u)) \<and>
      opt_ok client_phone_ok (map_option trim (cb_phone u)) \<and>
      opt_ok client_company_ok (map_option trim (cb_company u)) \<and>
      opt_ok client_address_ok (map_option trim (cb_address u)) \<and>
      opt_ok client_status_ok (cb_status u))"

definition client_set :: "client_body \<Rightarrow> date \<Rightarrow> client \<Rightarrow> client" where
  "client_set u now c =
     c\<lparr>c_name := opt_set (map_option trim (cb_name u)) (c_name c),
       c_email := opt_set (map_option toLowerCase (cb_email u)) (c_email c),
       c_phone := opt_set (map_option trim (cb_phone u)) (c_phone c),
       c_company := opt_set (map_option trim (cb_company u)) (c_company c),
       c_address := (case cb_address u of None \<Rightarrow> c_address c | Some a \<Rightarrow> Some (trim a)),
       c_status := opt_set (cb_status u) (c_status c),
       c_updatedAt := now\<rparr>"

definition Client_findByIdAndUpdate ::
  "lib \<Rightarrow> store \<Rightarrow> param \<Rightarrow> client_body \<Rightarrow> date \<Rightarrow> unit + client option \<times> store" where
  "Client_findByIdAndUpdate lb s p u now =
     (case p of
        Malformed \<Rightarrow> Inl ()
      | Oid i \<Rightarrow>
          if \<not> client_update_ok lb u then Inl ()
          else
            (case find (\<lambda>c. c_id c = i) (clients s) of
               None \<Rightarrow> Inr (None, s)
             | Some c \<Rightarrow>
                 Inr (Some (client_set u now c),
                      s\<lparr>clients := updateOne (\<lambda>c. c_id c = i) (client_set u now) (clients s)\<rparr>)))"

text \<open>The handler of \<open>POST /api/clients\<close>.\<close>

definition createClient :: "lib \<Rightarrow> store \<Rightarrow> client_body \<Rightarrow> date \<Rightarrow> (error + client) \<times> store" where
  "createClient lb s b now =
     (case Client_findOne_email s (cb_email b) of
        Some existingClient \<Rightarrow> (Inl (Conflict ''Client with this email already exists''), s)
      | None \<Rightarrow>
          (case Client_create lb s b now of
             Inl _ \<Rightarrow> (Inl (Internal ''Error creating client''), s)
           | Inr (c, s') \<Rightarrow> (Inr c, s')))"

text \<open>
  The handler of \<open>PUT /api/clients/:id\<close>. The duplicate check runs under
  \<open>if (updateData.email)\<close>: for an email that is present and not the empty string.
\<close>

definition updateClient ::
  "lib \<Rightarrow> store \<Rightarrow> param \<Rightarrow> client_body \<Rightarrow> date \<Rightarrow> (error + client) \<times> store" where
  "updateClient lb s p u now =
     (case (if truthy_str (cb_email u)
            then Client_findOne_email_ne s (opt_set (cb_email u) []) p
            else Inr None) of
        Inl _ \<Rightarrow> (Inl (Internal ''Error updating client''), s)
      | Inr (Some existingClient) \<Rightarrow>
          (Inl (Conflict ''Another client with this email already exists''), s)
      | Inr None \<Rightarrow>
          (case Client_findByIdAndUpdate lb s p u now of
             Inl _ \<Rightarrow> (Inl (Internal ''Error updating client''), s)
           | Inr (None, s') \<Rightarrow> (Inl (NotFound ''Client not found''), s')
           | Inr (Some c, s') \<Rightarrow> (Inr c, s')))"

subsection \<open>Deactivation\<close>

text \<open>
  The handler of \<open>DELETE /api/clients/:id\<close>, behind \<open>authorize("admin")\<close>.
\<close>

definition activeProjectsMessage :: "nat \<Rightarrow> string" where
  "activeProjectsMessage n =
     ''Cannot delete client with '' @ string_of_nat n @
     '' active project(s). Please complete or cancel projects first.''"

definition deleteClient :: "store \<Rightarrow> param \<Rightarrow> date \<Rightarrow> (error + client) \<times> store" where
  "deleteClient s p now =
     (case Client_findById s p of
        Inl _ \<Rightarrow> (Inl (Internal ''Error deleting client''), s)
      | Inr None \<Rightarrow> (Inl (NotFound ''Client not found''), s)
      | Inr (Some c) \<Rightarrow>
          (case Project_countActive s p of
             Inl _ \<Rightarrow> (Inl (Internal ''Error deleting client''), s)
           | Inr n \<Rightarrow>
               if n > 0 then (Inl (Conflict (activeProjectsMessage n)), s)
               else (case Client_save_status s c ''inactive'' now of (c', s') \<Rightarrow> (Inr c', s'))))"

text \<open>\<open>authorize(...roles)\<close> of \<open>middleware/auth.js\<close>.\<close>

definition authorize :: "string list \<Rightarrow> user \<Rightarrow> error option" where
  "authorize roles u =
     (if u_role u \<notin> set roles
      then Some (Forbidden (''User role '' @ u_role u @ '' is not authorized to access this route''))
      else None)"

definition route_deleteClient :: "store \<Rightarrow> user \<Rightarrow> param \<Rightarrow> date \<Rightarrow> (error + client) \<times> store" where
  "route_deleteClient s u p now =
     (case authorize [''admin''] u of
        Some e \<Rightarrow> (Inl e, s)
      | None \<Rightarrow> deleteClient s p now)"

definition route_createClient ::
  "lib \<Rightarrow> store \<Rightarrow> user \<Rightarrow> client_body \<Rightarrow> date \<Rightarrow> (error + client) \<times> store" where
  "route_createClient lb s u b now =
     (case authorize [''admin''] u of
        Some e \<Rightarrow> (Inl e, s)
      | None \<Rightarrow>
          (case validateCreateClient lb b of
             Some e \<Rightarrow> (Inl e, s)
           | None \<Rightarrow> createClient lb s b now))"

definition route_updateClient ::
  "lib \<Rightarrow> store \<Rightarrow> user \<Rightarrow> param \<Rightarrow> client_body \<Rightarrow> date \<Rightarrow> (error + client) \<times> store" where
  "route_updateClient lb s u p b now =
     (case authorize [''admin''] u of
        Some e \<Rightarrow> (Inl e, s)
      | None \<Rightarrow>
          (case validateUpdateClient lb b of
             Some e \<Rightarrow> (Inl e, s)
           | None \<Rightarrow> updateClient lb s p b now))"


section \<open>Project registry\<close>

text \<open>The body of \<open>POST /api/projects\<close> and of \<open>PUT /api/projects/:id\<close>.\<close>

record project_body =
  pb_title :: "string option"
  pb_description :: "string option"
  pb_clientId :: "param option"
  pb_status :: "string option"
  pb_startDate :: "date option"
  pb_endDate :: "date option"
  pb_budget :: "int option"

text \<open>
  The custom rule \<open>objectId\<close> (\<open>mongoose.Types.ObjectId.isValid\<close>) on a string that
  is not empty.
\<close>

definition joi_objectId :: "param \<Rightarrow> string list" where
  "joi_objectId p = (case p of Malformed \<Rightarrow> [''Invalid ID format''] | Oid i \<Rightarrow> [])"

text \<open>
  \<open>Joi.date().greater(Joi.ref("startDate"))\<close>: the reference must resolve to a date.
\<close>

definition joi_date_ref_message :: "string \<Rightarrow> string \<Rightarrow> string" where
  "joi_date_ref_message k r =
     [CHR 0x22] @ k @ [CHR 0x22] @ '' date references '' @ [CHR 0x22] @ ''ref:'' @ r @
     [CHR 0x22] @ '' which must have a valid date format''"

definition joi_date_greater :: "date option \<Rightarrow> string \<Rightarrow> string \<Rightarrow> date \<Rightarrow> string list" where
  "joi_date_greater ref m_ref m_greater e =
     (case ref of
        None \<Rightarrow> [m_ref]
      | Some sd \<Rightarrow> if sd < e then [] else [m_greater])"

text \<open>
  \<open>Joi.number()\<close> refuses a number outside the safe integers of JavaScript before
  any rule of the schema; then \<open>.min(lo)\<close>, and \<open>.min(lo).max(hi)\<close>.
\<close>

definition joi_quoted :: "string \<Rightarrow> string" where
  "joi_quoted k = [CHR 0x22] @ k @ [CHR 0x22]"

definition joi_unsafe :: "int \<Rightarrow> bool" where
  "joi_unsafe x = (x < - 9007199254740991 \<or> 9007199254740991 < x)"

definition joi_unsafe_message :: "string \<Rightarrow> string" where
  "joi_unsafe_message k = joi_quoted k @ '' must be a safe number''"

definition joi_number_min :: "string \<Rightarrow> int \<Rightarrow> string \<Rightarrow> int \<Rightarrow> string list" where
  "joi_number_min k lo m x =
     (if joi_unsafe x then [joi_unsafe_message k] else if x < lo then [m] else [])"

definition joi_number_range ::
  "string \<Rightarrow> int \<Rightarrow> int \<Rightarrow> string \<Rightarrow> string \<Rightarrow> int \<Rightarrow> string list" where
  "joi_number_range k lo hi m_min m_max x =
     (if joi_unsafe x then [joi_unsafe_message k]
      else if x < lo then [m_min] else if hi < x then [m_max] else [])"

definition joi_any :: "'a \<Rightarrow> string list" where
  "joi_any x = []"

definition project_statuses :: "string list" where
  "project_statuses = [''pending'', ''in-progress'', ''completed'']"

definition createProjectSchema :: "project_body joi_schema" where
  "createProjectSchema =
     [(''title'', \<lambda>b. joi_required ''Title is required''
         (joi_string 2 200 ''Title is required'' ''Title must be at least 2 characters long''
            ''Title cannot exceed 200 characters'') (pb_title b)),
      (''description'', \<lambda>b. joi_required ''Description is required''
         (joi_string 10 2000 ''Description is required''
            ''Description must be at least 10 characters long''
            ''Description cannot exceed 2000 characters'') (pb_description b)),
      (''clientId'', \<lambda>b. joi_required ''Client ID is required'' joi_objectId (pb_clientId b)),
      (''status'', \<lambda>b. joi_optional
         (joi_valid project_statuses ''Status must be pending, in-progress, or completed'')
         (pb_status b)),
      (''startDate'', \<lambda>b. joi_required ''Start date is required'' joi_any (pb_startDate b)),
      (''endDate'', \<lambda>b. joi_required ''End date is required''
         (joi_date_greater (pb_startDate b) (joi_date_ref_message ''endDate'' ''startDate'')
            ''End date must be after start date'') (pb_endDate b)),
      (''budget'', \<lambda>b. joi_required ''Budget is required''
         (joi_number_min ''budget'' 0 ''Budget cannot be negative'') (pb_budget b))]"

text \<open>
  In the update schema the order of the two dates is a rule of \<open>endDate\<close> only
  \<open>.when("startDate", { is: Joi.exist(), ... })\<close>: both dates are in the patch.
\<close>

definition updateProjectSchema :: "project_body joi_schema" where
  "updateProjectSchema =
     [(''title'', \<lambda>b. joi_optional
         (joi_string 2 200 (joi_not_empty_message ''title'')
            ''Title must be at least 2 characters long''
            ''Title cannot exceed 200 characters'') (pb_title b)),
      (''description'', \<lambda>b. joi_optional
         (joi_string 10 2000 (joi_not_empty_message ''description'')
            ''Description must be at least 10 characters long''
            ''Description cannot exceed 2000 characters'') (pb_description b)),
      (''clientId'', \<lambda>b. joi_optional joi_objectId (pb_clientId b)),
      (''status'', \<lambda>b. joi_optional
         (joi_valid project_statuses ''Status must be pending, in-progress, or completed'')
         (pb_status b)),
      (''startDate'', \<lambda>b. joi_optional joi_any (pb_startDate b)),
      (''endDate'', \<lambda>b. joi_optional
         (\<lambda>e. case pb_startDate b of
                 None \<Rightarrow> joi_any e
               | Some sd \<Rightarrow>
                   joi_date_greater (Some sd) (joi_date_ref_message ''endDate'' ''startDate'')
                     ''End date must be after start date'' e)
         (pb_endDate b)),
      (''budget'', \<lambda>b. joi_optional
         (joi_number_min ''budget'' 0 ''Budget cannot be negative'') (pb_budget b))]"

definition project_body_keys :: "project_body \<Rightarrow> nat" where
  "project_body_keys b =
     length (filter id
       [pb_title b \<noteq> None, pb_description b \<noteq> None, pb_clientId b \<noteq> None,
        pb_status b \<noteq> None, pb_startDate b \<noteq> None, pb_endDate b \<noteq> None,
        pb_budget b \<noteq> None])"

definition validateCreateProject :: "project_body \<Rightarrow> error option" where
  "validateCreateProject b =
     validation_answer (joi_validate True (joi_key_errors createProjectSchema b))"

definition validateUpdateProject :: "project_body \<Rightarrow> error option" where
  "validateUpdateProject b =
     validation_answer (joi_validate True
       (joi_key_errors updateProjectSchema b @
        joi_object_min 1 ''At least one field must be provided for update''
          (project_body_keys b)))"

text \<open>The validators of the project schema (\<open>models/Project.js\<close>), after \<open>trim\<close>.\<close>

definition project_title_ok :: "string \<Rightarrow> bool" where
  "project_title_ok x = (x \<noteq> [] \<and> length x \<le> 200)"

definition project_description_ok :: "string \<Rightarrow> bool" where
  "project_description_ok x = (x \<noteq> [] \<and> length x \<le> 2000)"

definition project_status_ok :: "string \<Rightarrow> bool" where
  "project_status_ok x = (x \<in> set project_statuses)"

definition project_budget_ok :: "int \<Rightarrow> bool" where
  "project_budget_ok x = (0 \<le> x)"

text \<open>
  The validator of \<open>endDate\<close>, \<open>function (value) { return value > this.startDate; }\<close>,
  given what \<open>this.startDate\<close> yields. A comparison with \<open>undefined\<close> is false.
\<close>

definition project_endDate_ok :: "date option \<Rightarrow> date \<Rightarrow> bool" where
  "project_endDate_ok this_start v =
     (case this_start of None \<Rightarrow> False | Some sd \<Rightarrow> sd < v)"

text \<open>
  \<open>projectSchema.pre("save")\<close>: the client of a document whose \<open>clientId\<close> is
  modified must exist and must not be inactive.
\<close>

definition project_pre_save :: "store \<Rightarrow> oid \<Rightarrow> bool" where
  "project_pre_save s ci =
     (case find (\<lambda>c. c_id c = ci) (clients s) of
        None \<Rightarrow> False
      | Some c \<Rightarrow> c_status c \<noteq> ''inactive'')"

text \<open>
  \<open>Project.create({ title, description, clientId, status, startDate, endDate, budget,
  createdBy: req.user.id })\<close>: \<open>Inl\<close> is the error thrown by validation or by the
  \<open>pre("save")\<close> hook. The validator of \<open>endDate\<close> runs on the new document, whose
  \<open>startDate\<close> is the one of the body. The default status is \<open>pending\<close>.
\<close>

definition Project_create ::
  "store \<Rightarrow> project_body \<Rightarrow> oid \<Rightarrow> date \<Rightarrow> unit + project \<times> store" where
  "Project_create s b createdBy now =
     (case (pb_title b, pb_description b, pb_clientId b, pb_startDate b, pb_endDate b,
            pb_budget b) of
        (Some t, Some d, Some (Oid ci), Some sd, Some ed, Some bu) \<Rightarrow>
          (let q = \<lparr>p_id = next_id s, p_title = trim t, p_description = trim d,
                    p_clientId = ci,
                    p_status = (case pb_status b of None \<Rightarrow> ''pending'' | Some st \<Rightarrow> st),
                    p_startDate = sd, p_endDate = ed, p_budget = bu,
                    p_createdBy = createdBy, p_createdAt = now, p_updatedAt = now\<rparr>
           in if project_title_ok (p_title q) \<and> project_description_ok (p_description q) \<and>
                 project_status_ok (p_status q) \<and>
                 project_endDate_ok (Some (p_startDate q)) (p_endDate q) \<and>
                 project_budget_ok (p_budget q) \<and>
                 project_pre_save s ci
              then Inr (q, s\<lparr>projects := projects s @ [q], next_id := next_id s + 1\<rparr>)
              else Inl ())
      | _ \<Rightarrow> Inl ())"

text \<open>
  \<open>Project.findByIdAndUpdate(id, updateData, { new: true, runValidators: true })\<close>.
  The validators run on the paths of the update, each on its new value alone; the stored
  document is not read for them, and the \<open>pre("save")\<close> hook does not run on an
  update.
\<close>

definition project_update_ok :: "lib \<Rightarrow> project_body \<Rightarrow> bool" where
  "project_update_ok lb u =
     (opt_ok project_title_ok (map_option trim (pb_title u)) \<and>
      opt_ok project_description_ok (map_option trim (pb_description u)) \<and>
      pb_clientId u \<noteq> Some Malformed \<and>
      opt_ok project_status_ok (pb_status u) \<and>
      opt_ok (project_endDate_ok (this_startDate lb)) (pb_endDate u) \<and>
      opt_ok project_budget_ok (pb_budget u))"

definition project_set :: "project_body \<Rightarrow> date \<Rightarrow> project \<Rightarrow> project" where
  "project_set u now q =
     q\<lparr>p_title := opt_set (map_option trim (pb_title u)) (p_title q),
       p_description := opt_set (map_option trim (pb_description u)) (p_description q),
       p_clientId := (case pb_clientId u of Some (Oid ci) \<Rightarrow> ci | _ \<Rightarrow> p_clientId q),
       p_status := opt_set (pb_status u) (p_status q),
       p_startDate := opt_set (pb_startDate u) (p_startDate q),
       p_endDate := opt_set (pb_endDate u) (p_endDate q),
       p_budget := opt_set (pb_budget u) (p_budget q),
       p_updatedAt := now\<rparr>"

definition Project_findByIdAndUpdate ::
  "lib \<Rightarrow> store \<Rightarrow> param \<Rightarrow> project_body \<Rightarrow> date \<Rightarrow> unit + project option \<times> store" where
  "Project_findByIdAndUpdate lb s p u now =
     (case p of
        Malformed \<Rightarrow> Inl ()
      | Oid i \<Rightarrow>
          if \<not> project_update_ok lb u then Inl ()
          else
            (case find (\<lambda>q. p_id q = i) (projects s) of
               None \<Rightarrow> Inr (None, s)
             | Some q \<Rightarrow>
                 Inr (Some (project_set u now q),
                      s\<lparr>projects :=
                          updateOne (\<lambda>q. p_id q = i) (project_set u now) (projects s)\<rparr>)))"

definition Project_findByIdAndDelete :: "store \<Rightarrow> param \<Rightarrow> unit + store" where
  "Project_findByIdAndDelete s p =
     (case p of
        Malformed \<Rightarrow> Inl ()
      | Oid i \<Rightarrow> Inr (s\<lparr>projects := deleteOne (\<lambda>q. p_id q = i) (projects s)\<rparr>))"

text \<open>
  The handler of \<open>POST /api/projects\<close>. \<open>Client.findById\<close> of an absent id gives
  null.
\<close>

definition createProject ::
  "store \<Rightarrow> user \<Rightarrow> project_body \<Rightarrow> date \<Rightarrow> (error + project) \<times> store" where
  "createProject s u b now =
     (case (case pb_clientId b of None \<Rightarrow> Inr None | Some p \<Rightarrow> Client_findById s p) of
        Inl _ \<Rightarrow> (Inl (Internal ''Error creating project''), s)
      | Inr None \<Rightarrow> (Inl (NotFound ''Client not found''), s)
      | Inr (Some c) \<Rightarrow>
          if c_status c = ''inactive''
          then (Inl (Conflict ''Cannot create project for inactive client''), s)
          else
            (case Project_create s b (u_id u) now of
               Inl _ \<Rightarrow> (Inl (Internal ''Error creating project''), s)
             | Inr (q, s') \<Rightarrow> (Inr q, s')))"

text \<open>
  The handler of \<open>PUT /api/projects/:id\<close>. The client is checked under
  \<open>if (updateData.clientId)\<close>. A \<open>clientId\<close> that is not of ObjectId form ends in the
  500 answer on either path: as the CastError of \<open>Client.findById\<close> when the string
  is not empty, as the CastError of the update when it is.
\<close>

definition updateProject_client :: "store \<Rightarrow> project_body \<Rightarrow> error option" where
  "updateProject_client s u =
     (case pb_clientId u of
        None \<Rightarrow> None
      | Some cp \<Rightarrow>
          (case Client_findById s cp of
             Inl _ \<Rightarrow> Some (Internal ''Error updating project'')
           | Inr None \<Rightarrow> Some (NotFound ''Client not found'')
           | Inr (Some c) \<Rightarrow>
               if c_status c = ''inactive''
               then Some (Conflict ''Cannot assign project to inactive client'')
               else None))"

definition updateProject ::
  "lib \<Rightarrow> store \<Rightarrow> param \<Rightarrow> project_body \<Rightarrow> date \<Rightarrow> (error + project) \<times> store" where
  "updateProject lb s p u now =
     (case updateProject_client s u of
        Some e \<Rightarrow> (Inl e, s)
      | None \<Rightarrow>
          (case Project_findByIdAndUpdate lb s p u now of
             Inl _ \<Rightarrow> (Inl (Internal ''Error updating project''), s)
           | Inr (None, s') \<Rightarrow> (Inl (NotFound ''Project not found''), s')
           | Inr (Some q, s') \<Rightarrow> (Inr q, s')))"

text \<open>
  The handler of \<open>DELETE /api/projects/:id\<close>:
  \<open>project.createdBy.toString() !== req.user.id && req.user.role !== 'admin'\<close> is the
  403 answer.
\<close>

definition deleteProject :: "store \<Rightarrow> user \<Rightarrow> param \<Rightarrow> (error + unit) \<times> store" where
  "deleteProject s u p =
     (case Project_findById s p of
        Inl _ \<Rightarrow> (Inl (Internal ''Error deleting project''), s)
      | Inr None \<Rightarrow> (Inl (NotFound ''Project not found''), s)
      | Inr (Some q) \<Rightarrow>
          if p_createdBy q \<noteq> u_id u \<and> u_role u \<noteq> ''admin''
          then (Inl (Forbidden ''Not authorized to delete this project''), s)
          else
            (case Project_findByIdAndDelete s p of
               Inl _ \<Rightarrow> (Inl (Internal ''Error deleting project''), s)
             | Inr s' \<Rightarrow> (Inr (), s')))"

definition route_createProject ::
  "store \<Rightarrow> user \<Rightarrow> project_body \<Rightarrow> date \<Rightarrow> (error + project) \<times> store" where
  "route_createProject s u b now =
     (case validateCreateProject b of
        Some e \<Rightarrow> (Inl e, s)
      | None \<Rightarrow> createProject s u b now)"

definition route_updateProject ::
  "lib \<Rightarrow> store \<Rightarrow> param \<Rightarrow> project_body \<Rightarrow> date \<Rightarrow> (error + project) \<times> store" where
  "route_updateProject lb s p b now =
     (case validateUpdateProject b of
        Some e \<Rightarrow> (Inl e, s)
      | None \<Rightarrow> updateProject lb s p b now)"

section \<open>List requests\<close>

text \<open>
  The query string of a list request, after decoding: every parameter present with the
  type its schema asks for, or absent. The query middleware replaces \<open>req.query\<close> by
  the value Joi returns, so the handler sees the defaults and the trimmed search text.
\<close>

record raw_query =
  rq_page :: "int option"
  rq_limit :: "int option"
  rq_search :: "string option"
  rq_status :: "string option"
  rq_clientId :: "param option"
  rq_sortBy :: "string option"
  rq_sortOrder :: "string option"
  rq_startDateFrom :: "date option"
  rq_startDateTo :: "date option"
  rq_endDateFrom :: "date option"
  rq_endDateTo :: "date option"
  rq_budgetMin :: "int option"
  rq_budgetMax :: "int option"

record list_query =
  q_page :: nat
  q_limit :: nat
  q_search :: "string option"
  q_status :: "string option"
  q_clientId :: "oid option"
  q_sortBy :: string
  q_sortOrder :: string
  q_startDateFrom :: "date option"
  q_startDateTo :: "date option"
  q_endDateFrom :: "date option"
  q_endDateTo :: "date option"
  q_budgetMin :: "int option"
  q_budgetMax :: "int option"

text \<open>Joi's own messages of the rules that the query schemas leave without one.\<close>

definition joi_min_message :: "string \<Rightarrow> string \<Rightarrow> string" where
  "joi_min_message k n = joi_quoted k @ '' must be greater than or equal to '' @ n"

definition joi_max_message :: "string \<Rightarrow> string \<Rightarrow> string" where
  "joi_max_message k n = joi_quoted k @ '' must be less than or equal to '' @ n"

definition joi_only_message :: "string \<Rightarrow> string \<Rightarrow> string" where
  "joi_only_message k vs = joi_quoted k @ '' must be one of ['' @ vs @ '']''"

definition projectQuerySchema :: "raw_query joi_schema" where
  "projectQuerySchema =
     [(''page'', \<lambda>r. joi_optional
         (joi_number_min ''page'' 1 (joi_min_message ''page'' ''1'')) (rq_page r)),
      (''limit'', \<lambda>r. joi_optional
         (joi_number_range ''limit'' 1 100 (joi_min_message ''limit'' ''1'')
            (joi_max_message ''limit'' ''100'')) (rq_limit r)),
      (''search'', \<lambda>r. joi_optional joi_any (rq_search r)),
      (''status'', \<lambda>r. joi_optional
         (joi_valid project_statuses
            (joi_only_message ''status'' ''pending, in-progress, completed''))
         (rq_status r)),
      (''clientId'', \<lambda>r. joi_optional joi_objectId (rq_clientId r)),
      (''sortBy'', \<lambda>r. joi_optional
         (joi_valid [''title'', ''status'', ''startDate'', ''endDate'', ''budget'',
                     ''createdAt'', ''updatedAt'']
            (joi_only_message ''sortBy''
               ''title, status, startDate, endDate, budget, createdAt, updatedAt''))
         (rq_sortBy r)),
      (''sortOrder'', \<lambda>r. joi_optional
         (joi_valid [''asc'', ''desc''] (joi_only_message ''sortOrder'' ''asc, desc''))
         (rq_sortOrder r)),
      (''startDateFrom'', \<lambda>r. joi_optional joi_any (rq_startDateFrom r)),
      (''startDateTo'', \<lambda>r. joi_optional joi_any (rq_startDateTo r)),
      (''endDateFrom'', \<lambda>r. joi_optional joi_any (rq_endDateFrom r)),
      (''endDateTo'', \<lambda>r. joi_optional joi_any (rq_endDateTo r)),
      (''budgetMin'', \<lambda>r. joi_optional
         (joi_number_min ''budgetMin'' 0 (joi_min_message ''budgetMin'' ''0''))
         (rq_budgetMin r)),
      (''budgetMax'', \<lambda>r. joi_optional
         (joi_number_min ''budgetMax'' 0 (joi_min_message ''budgetMax'' ''0''))
         (rq_budgetMax r))]"



text \<open>The value of a valid query: defaults filled in, the search text trimmed.\<close>

definition query_value :: "raw_query \<Rightarrow> list_query" where
  "query_value r =
     \<lparr>q_page = nat (opt_set (rq_page r) 1),
      q_limit = nat (opt_set (rq_limit r) 10),
      q_search = map_option trim (rq_search r),
      q_status = rq_status r,
      q_clientId = (case rq_clientId r of Some (Oid i) \<Rightarrow> Some i | _ \<Rightarrow> None),
      q_sortBy = opt_set (rq_sortBy r) ''createdAt'',
      q_sortOrder = opt_set (rq_sortOrder r) ''desc'',
      q_startDateFrom = rq_startDateFrom r,
      q_startDateTo = rq_startDateTo r,
      q_endDateFrom = rq_endDateFrom r,
      q_endDateTo = rq_endDateTo r,
      q_budgetMin = rq_budgetMin r,
      q_budgetMax = rq_budgetMax r\<rparr>"

definition validateProjectQuery :: "raw_query \<Rightarrow> error + list_query" where
  "validateProjectQuery r =
     (case joi_validate True (joi_key_errors projectQuerySchema r) of
        [] \<Rightarrow> Inr (query_value r)
      | d # ds \<Rightarrow> Inl (ValidationError (d # ds)))"


text \<open>
  The MongoDB filter the handler of \<open>GET /api/projects\<close> builds: \<open>$or\<close> of two
  \<open>$regex\<close> tests with one pattern, equality on \<open>status\<close> and \<open>clientId\<close>, and the
  operators \<open>$gte\<close> and \<open>$lte\<close> on \<open>startDate\<close>, \<open>endDate\<close> and \<open>budget\<close>. Every
  part is added under a JavaScript truth test of the parameter: a date object is true,
  a string is true unless empty, a number is true unless zero.
\<close>

record project_filter =
  f_or :: "string option"
  f_status :: "string option"
  f_clientId :: "oid option"
  f_startDate :: "(date option \<times> date option) option"
  f_endDate :: "(date option \<times> date option) option"
  f_budget :: "(int option \<times> int option) option"

definition buildProjectQuery :: "list_query \<Rightarrow> project_filter" where
  "buildProjectQuery q =
     \<lparr>f_or = (if truthy_str (q_search q) then q_search q else None),
      f_status = (if truthy_str (q_status q) then q_status q else None),
      f_clientId = q_clientId q,
      f_startDate =
        (if q_startDateFrom q \<noteq> None \<or> q_startDateTo q \<noteq> None
         then Some (q_startDateFrom q, q_startDateTo q) else None),
      f_endDate =
        (if q_endDateFrom q \<noteq> None \<or> q_endDateTo q \<noteq> None
         then Some (q_endDateFrom q, q_endDateTo q) else None),
      f_budget =
        (if truthy_num (q_budgetMin q) \<or> truthy_num (q_budgetMax q)
         then Some (if truthy_num (q_budgetMin q) then q_budgetMin q else None,
                    if truthy_num (q_budgetMax q) then q_budgetMax q else None)
         else None)\<rparr>"

text \<open>\<open>{ $gte: lo, $lte: hi }\<close>, each operator present or not.\<close>

definition in_range :: "('a::linorder) option \<times> 'a option \<Rightarrow> 'a \<Rightarrow> bool" where
  "in_range r x =
     ((case fst r of None \<Rightarrow> True | Some lo \<Rightarrow> lo \<le> x) \<and>
      (case snd r of None \<Rightarrow> True | Some hi \<Rightarrow> x \<le> hi))"

definition project_matches :: "(string \<Rightarrow> bool) \<Rightarrow> project_filter \<Rightarrow> project \<Rightarrow> bool" where
  "project_matches rx f p =
     ((case f_or f of None \<Rightarrow> True | Some pat \<Rightarrow> rx (p_title p) \<or> rx (p_description p)) \<and>
      (case f_status f of None \<Rightarrow> True | Some st \<Rightarrow> p_status p = st) \<and>
      (case f_clientId f of None \<Rightarrow> True | Some i \<Rightarrow> p_clientId p = i) \<and>
      (case f_startDate f of None \<Rightarrow> True | Some r \<Rightarrow> in_range r (p_startDate p)) \<and>
      (case f_endDate f of None \<Rightarrow> True | Some r \<Rightarrow> in_range r (p_endDate p)) \<and>
      (case f_budget f of None \<Rightarrow> True | Some r \<Rightarrow> in_range r (p_budget p)))"

text \<open>
  The documents a filter selects, in the order of the collection: \<open>Inl\<close> when the
  search pattern is not a regular expression and the server refuses the query.
\<close>

definition Project_matching :: "lib \<Rightarrow> store \<Rightarrow> project_filter \<Rightarrow> unit + project list" where
  "Project_matching lb s f =
     (case f_or f of
        None \<Rightarrow> Inr (filter (project_matches (\<lambda>x. True) f) (projects s))
      | Some pat \<Rightarrow>
          (case regex_i lb pat of
             None \<Rightarrow> Inl ()
           | Some rx \<Rightarrow> Inr (filter (project_matches rx f) (projects s))))"

text \<open>
  \<open>.sort({ [sortBy]: 1 | -1 })\<close>. Strings compare byte by byte, numbers and dates by
  value. The sort is an insertion sort that keeps the order of the collection among
  equal keys (the server promises no order there).
\<close>

datatype sort_value = SStr string | SNum int

fun string_le :: "string \<Rightarrow> string \<Rightarrow> bool" where
  "string_le [] ys = True"
| "string_le (x # xs) [] = False"
| "string_le (x # xs) (y # ys) =
     ((of_char x :: nat) < of_char y \<or> (x = y \<and> string_le xs ys))"

fun sort_le :: "sort_value \<Rightarrow> sort_value \<Rightarrow> bool" where
  "sort_le (SNum a) (SNum b) = (a \<le> b)"
| "sort_le (SStr a) (SStr b) = string_le a b"
| "sort_le (SNum a) (SStr b) = True"
| "sort_le (SStr a) (SNum b) = False"

fun insert_by :: "('a \<Rightarrow> 'a \<Rightarrow> bool) \<Rightarrow> 'a \<Rightarrow> 'a list \<Rightarrow> 'a list" where
  "insert_by le x [] = [x]"
| "insert_by le x (y # ys) = (if le x y then x # y # ys else y # insert_by le x ys)"

definition mongo_sort :: "('a \<Rightarrow> sort_value) \<Rightarrow> bool \<Rightarrow> 'a list \<Rightarrow> 'a list" where
  "mongo_sort key asc xs =
     foldr (insert_by (\<lambda>a b. if asc then sort_le (key a) (key b) else sort_le (key b) (key a)))
       xs []"

definition project_sort_value :: "string \<Rightarrow> project \<Rightarrow> sort_value" where
  "project_sort_value sortBy p =
     (if sortBy = ''title'' then SStr (p_title p)
      else if sortBy = ''status'' then SStr (p_status p)
      else if sortBy = ''startDate'' then SNum (p_startDate p)
      else if sortBy = ''endDate'' then SNum (p_endDate p)
      else if sortBy = ''budget'' then SNum (p_budget p)
      else if sortBy = ''updatedAt'' then SNum (p_updatedAt p)
      else SNum (p_createdAt p))"


text \<open>\<open>Math.ceil(total / limit)\<close>\<close>

definition math_ceil_div :: "nat \<Rightarrow> nat \<Rightarrow> nat" where
  "math_ceil_div n k = nat \<lceil>real n / real k\<rceil>"

record pagination =
  currentPage :: nat
  totalPages :: nat
  totalRecords :: nat
  hasNextPage :: bool
  hasPrevPage :: bool
  pg_limit :: nat

record 'a page =
  items :: "'a list"
  paging :: pagination

text \<open>
  The part the two list handlers share: \<open>.sort(sort).skip(skip).limit(limit)\<close> on the
  documents of the filter, \<open>countDocuments\<close> of the same filter, and the pagination
  of the answer. (\<open>populate\<close> adds the summary of the referenced documents to each
  item and selects none: it is left out.)
\<close>

definition paginate :: "('a \<Rightarrow> sort_value) \<Rightarrow> list_query \<Rightarrow> 'a list \<Rightarrow> 'a page" where
  "paginate key q matching =
     (let skip = (q_page q - 1) * q_limit q;
          found = take (q_limit q) (drop skip (mongo_sort key (q_sortOrder q = ''asc'') matching));
          count = length matching;
          pages = math_ceil_div count (q_limit q)
      in \<lparr>items = found,
          paging = \<lparr>currentPage = q_page q, totalPages = pages, totalRecords = count,
                    hasNextPage = (q_page q < pages), hasPrevPage = (q_page q > 1),
                    pg_limit = q_limit q\<rparr>\<rparr>)"


definition getProjects :: "lib \<Rightarrow> store \<Rightarrow> list_query \<Rightarrow> error + project page" where
  "getProjects lb s q =
     (case Project_matching lb s (buildProjectQuery q) of
        Inl _ \<Rightarrow> Inl (Internal ''Error fetching projects'')
      | Inr matching \<Rightarrow> Inr (paginate (project_sort_value (q_sortBy q)) q matching))"

definition route_getProjects :: "lib \<Rightarrow> store \<Rightarrow> raw_query \<Rightarrow> error + project page" where
  "route_getProjects lb s r =
     (case validateProjectQuery r of
        Inl e \<Rightarrow> Inl e
      | Inr q \<Rightarrow> getProjects lb s q)"





section \<open>Reachable stores\<close>

text \<open>
  The stores the public interface can produce: from the empty store, by the six
  routes that write, whatever the libraries decide and whoever asks, at any time.
  \<open>DELETE /api/projects/:id\<close> has no middleware of its own, so its route is its
  handler. The requests are served one after the other: two requests in flight
  between a check and its write are outside the model.
\<close>

definition empty_store :: store where
  "empty_store = \<lparr>clients = [], projects = [], next_id = 0\<rparr>"

inductive reachable :: "store \<Rightarrow> bool" where
  reach_empty: "reachable empty_store"
| reach_createClient: "reachable s \<Longrightarrow> reachable (snd (route_createClient lb s u cb now))"
| reach_updateClient: "reachable s \<Longrightarrow> reachable (snd (route_updateClient lb s u p cb now))"
| reach_deleteClient: "reachable s \<Longrightarrow> reachable (snd (route_deleteClient s u p now))"
| reach_createProject: "reachable s \<Longrightarrow> reachable (snd (route_createProject s u pb now))"
| reach_updateProject: "reachable s \<Longrightarrow> reachable (snd (route_updateProject lb s p pb now))"
| reach_deleteProject: "reachable s \<Longrightarrow> reachable (snd (deleteProject s u p))"

text \<open>
  Requests in flight. The handler of \<open>POST /api/clients\<close> awaits twice: the
  \<open>findOne\<close> of its duplicate check, then \<open>Client.create\<close>. The collection has no
  unique index on \<open>email\<close> (\<open>clientSchema.index({ email: 1 })\<close>), so nothing but the
  check stands between a request and its write, and other requests are served between
  the two. \<open>createClient_write\<close> is the handler after its check;
  \<open>reachable_in_flight s fl\<close> holds of a store \<open>s\<close> together with the bodies
  \<open>fl\<close> of the create requests that have passed their check and not yet written.
\<close>

definition createClient_write ::
  "lib \<Rightarrow> store \<Rightarrow> client_body \<Rightarrow> date \<Rightarrow> (error + client) \<times> store" where
  "createClient_write lb s b now =
     (case Client_create lb s b now of
        Inl _ \<Rightarrow> (Inl (Internal ''Error creating client''), s)
      | Inr (c, s') \<Rightarrow> (Inr c, s'))"

inductive reachable_in_flight :: "store \<Rightarrow> client_body list \<Rightarrow> bool" where
  flight_none: "reachable s \<Longrightarrow> reachable_in_flight s []"
| flight_check:
    "reachable_in_flight s fl \<Longrightarrow> authorize [''admin''] u = None \<Longrightarrow>
     validateCreateClient lb b = None \<Longrightarrow> Client_findOne_email s (cb_email b) = None \<Longrightarrow>
     reachable_in_flight s (fl @ [b])"
| flight_write:
    "reachable_in_flight s fl \<Longrightarrow> b \<in> set fl \<Longrightarrow>
     reachable_in_flight (snd (createClient_write lb s b now)) (remove1 b fl)"

text \<open>
  Two invariants of the reachable stores. The clients have distinct ids, below the
  next fresh id, and distinct emails, each stored in lower case and not empty. The
  status of every project is one of the three of the schema.
\<close>

definition client_inv :: "store \<Rightarrow> bool" where
  "client_inv s =
     (distinct (map c_id (clients s)) \<and> distinct (map c_email (clients s)) \<and>
      (\<forall>c \<in> set (clients s).
         c_id c < next_id s \<and> c_email c \<noteq> [] \<and> toLowerCase (c_email c) = c_email c))"

definition status_inv :: "store \<Rightarrow> bool" where
  "status_inv s = (\<forall>q \<in> set (projects s). p_status q \<in> set project_statuses)"

section \<open>Example data\<close>

text \<open>
  The end-to-end scenario of the specification: the client Acme and one project of
  budget 25000, first pending, then completed.
\<close>

definition acme :: client where
  "acme = \<lparr>c_id = 1, c_name = ''Acme'', c_email = ''a@acme.com'',
     c_phone = ''1234567890'', c_company = ''Acme'', c_address = None,
     c_status = ''active'', c_createdAt = 10, c_updatedAt = 10\<rparr>"

definition website :: project where
  "website = \<lparr>p_id = 2, p_title = ''Website Redesign'',
     p_description = ''Complete redesign of company website'',
     p_clientId = 1, p_status = ''pending'', p_startDate = 100, p_endDate = 200,
     p_budget = 25000, p_createdBy = 7, p_createdAt = 20, p_updatedAt = 20\<rparr>"

definition store_pending :: store where
  "store_pending = \<lparr>clients = [acme], projects = [website], next_id = 3\<rparr>"

definition store_completed :: store where
  "store_completed =
     \<lparr>clients = [acme], projects = [website\<lparr>p_status := ''completed''\<rparr>], next_id = 3\<rparr>"

definition store_inactive :: store where
  "store_inactive =
     \<lparr>clients = [acme\<lparr>c_status := ''inactive''\<rparr>],
      projects = [website\<lparr>p_status := ''completed''\<rparr>], next_id = 3\<rparr>"

text \<open>Requests: the empty body, the empty query string, and the project of the scenario.\<close>

definition no_client_body :: client_body where
  "no_client_body =
     \<lparr>cb_name = None, cb_email = None, cb_phone = None, cb_company = None,
      cb_address = None, cb_status = None\<rparr>"

definition no_project_body :: project_body where
  "no_project_body =
     \<lparr>pb_title = None, pb_description = None, pb_clientId = None, pb_status = None,
      pb_startDate = None, pb_endDate = None, pb_budget = None\<rparr>"

definition no_query :: raw_query where
  "no_query =
     \<lparr>rq_page = None, rq_limit = None, rq_search = None, rq_status = None,
      rq_clientId = None, rq_sortBy = None, rq_sortOrder = None, rq_startDateFrom = None,
      rq_startDateTo = None, rq_endDateFrom = None, rq_endDateTo = None,
      rq_budgetMin = None, rq_budgetMax = None\<rparr>"

definition website_body :: project_body where
  "website_body =
     \<lparr>pb_title = Some ''Website Redesign'',
      pb_description = Some ''Complete redesign of company website'',
      pb_clientId = Some (Oid 1), pb_status = None,
      pb_startDate = Some 100, pb_endDate = Some 200, pb_budget = Some 25000\<rparr>"

text \<open>
  An instance of what the libraries decide, for the examples: an email needs an
  \<open>@\<close>, \<open>this.startDate\<close> of an update validator is undefined, and a pattern is
  searched for as it is written, whatever the case of the letters.
\<close>

definition literal_search :: "string \<Rightarrow> string \<Rightarrow> bool" where
  "literal_search pat x =
     list_ex (\<lambda>n. take (length pat) (drop n (toLowerCase x)) = toLowerCase pat)
       [0..<Suc (length x)]"

definition example_lib :: lib where
  "example_lib =
     \<lparr>joi_email = (\<lambda>x. CHR ''@'' \<in> set x), email_match = (\<lambda>x. CHR ''@'' \<in> set x),
      this_startDate = None, regex_i = (\<lambda>pat. Some (literal_search pat))\<rparr>"

definition creator :: user where
  "creator = \<lparr>u_id = 7, u_role = ''user''\<rparr>"

definition stranger :: user where
  "stranger = \<lparr>u_id = 8, u_role = ''user''\<rparr>"

text \<open>
  Two stores the routes produce from the empty one: an admin creates the client Acme
  (with an email in mixed case), a user creates the project for it, and the admin
  creates a second client.
\<close>

definition admin :: user where
  "admin = \<lparr>u_id = 9, u_role = ''admin''\<rparr>"

definition acme_body :: client_body where
  "acme_body =
     \<lparr>cb_name = Some ''Acme'', cb_email = Some ''A@acme.com'', cb_phone = Some ''1234567890'',
      cb_company = Some ''Acme'', cb_address = None, cb_status = None\<rparr>"

definition globex_body :: client_body where
  "globex_body =
     \<lparr>cb_name = Some ''Globex'', cb_email = Some ''info@globex.com'',
      cb_phone = Some ''0987654321'', cb_company = Some ''Globex'', cb_address = None,
      cb_status = None\<rparr>"

definition first_store :: store where
  "first_store =
     snd (route_createProject (snd (route_createClient example_lib empty_store admin acme_body 10))
       creator (website_body\<lparr>pb_clientId := Some (Oid 0)\<rparr>) 20)"

definition second_store :: store where
  "second_store = snd (route_createClient example_lib first_store admin globex_body 25)"

text \<open>
  The store after two requests to create Acme that both pass their check on the empty
  store before either writes.
\<close>

definition raced_store :: store where
  "raced_store =
     snd (createClient_write example_lib
            (snd (createClient_write example_lib empty_store acme_body 10)) acme_body 11)"

section \<open>Properties of the store operations\<close>

lemma updateOne_map_key:
  "(\<And>x. k (f x) = k x) \<Longrightarrow> map k (updateOne P f xs) = map k xs"
  by (induction xs) auto

lemma find_updateOne_same:
  "find P xs = Some x \<Longrightarrow> P (f x) \<Longrightarrow> find P (updateOne P f xs) = Some (f x)"
  by (induction xs) (auto split: if_splits)

lemma find_Some_P: "find P xs = Some x \<Longrightarrow> P x \<and> x \<in> set xs"
  by (induction xs) (auto split: if_splits)

lemma activeProjects_pos_iff:
  "0 < activeProjects s i \<longleftrightarrow>
   (\<exists>q \<in> set (projects s). p_clientId q = i \<and> (p_status q = ''pending'' \<or> p_status q = ''in-progress''))"
  unfolding activeProjects_def by (auto simp: filter_empty_conv)

lemma deleteClient_missing:
  "find (\<lambda>c. c_id c = i) (clients s) = None \<Longrightarrow>
   deleteClient s (Oid i) now = (Inl (NotFound ''Client not found''), s)"
  by (simp add: deleteClient_def Client_findById_def)

lemma deleteClient_conflict:
  "find (\<lambda>c. c_id c = i) (clients s) = Some c \<Longrightarrow> 0 < activeProjects s i \<Longrightarrow>
   deleteClient s (Oid i) now = (Inl (Conflict (activeProjectsMessage (activeProjects s i))), s)"
  by (simp add: deleteClient_def Client_findById_def Project_countActive_def)

lemma deleteClient_ok:
  assumes "find (\<lambda>c. c_id c = i) (clients s) = Some c" and "activeProjects s i = 0"
  shows "deleteClient s (Oid i) now = 
    (if c_status c = ''inactive'' then (Inr c, s)
     else (Inr (c\<lparr>c_status := ''inactive'', c_updatedAt := now\<rparr>),
           s\<lparr>clients := updateOne (\<lambda>d. c_id d = i)
                (\<lambda>d. d\<lparr>c_status := ''inactive'', c_updatedAt := now\<rparr>) (clients s)\<rparr>))"
proof -
  have "c_id c = i" using assms(1) by (auto dest: find_Some_P)
  then show ?thesis using assms
    by (simp add: deleteClient_def Client_findById_def Project_countActive_def
        Client_save_status_def)
qed

lemma find_deleteOne_split:
  "find P xs = Some x \<Longrightarrow>
   \<exists>as bs. xs = as @ x # bs \<and> deleteOne P xs = as @ bs \<and> (\<forall>a \<in> set as. \<not> P a)"
proof (induction xs)
  case Nil
  then show ?case by simp
next
  case (Cons y ys)
  show ?case
  proof (cases "P y")
    case True
    with Cons.prems have "x = y" by simp
    with True show ?thesis by (intro exI[of _ "[]"] exI[of _ ys]) simp
  next
    case False
    with Cons.prems have "find P ys = Some x" by simp
    from Cons.IH[OF this] obtain as bs where
      "ys = as @ x # bs" "deleteOne P ys = as @ bs" "\<forall>a \<in> set as. \<not> P a" by blast
    with False show ?thesis by (intro exI[of _ "y # as"] exI[of _ bs]) simp
  qed
qed

lemma neg_div_ceiling:
  fixes a k :: int
  assumes "0 < k"
  shows "- ((- a) div k) = (a + k - 1) div k"
proof -
  let ?q = "(a + k - 1) div k" and ?r = "(a + k - 1) mod k"
  have e: "a + k - 1 = k * ?q + ?r" by simp
  have r0: "0 \<le> ?r" and r1: "?r < k" using assms by simp_all
  have "- a = k * (- ?q) + (k - 1 - ?r)" unfolding mult_minus_right using e by linarith
  moreover have "0 \<le> k - 1 - ?r" using r1 by simp
  moreover have "k - 1 - ?r < k" using r0 by simp
  ultimately have "(- a) div k = - ?q" by (rule int_div_pos_eq)
  then show ?thesis by simp
qed

lemma math_ceil_div_eq:
  assumes "0 < k"
  shows "math_ceil_div n k = (n + k - 1) div k"
proof -
  have "\<lceil>real n / real k\<rceil> = \<lceil>(of_int (int n) :: real) / of_int (int k)\<rceil>" by simp
  also have "\<dots> = - ((- int n) div int k)" by (rule ceiling_divide_eq_div)
  also have "\<dots> = (int n + int k - 1) div int k" using assms by (simp add: neg_div_ceiling)
  also have "\<dots> = int ((n + k - 1) div k)"
  proof -
    have "int n + int k - 1 = int (n + k - 1)" using assms by (simp add: of_nat_diff)
    then show ?thesis by (simp only: zdiv_int)
  qed
  finally show ?thesis by (simp add: math_ceil_div_def)
qed

lemma route_createProject_cases:
  "route_createProject s u b now = createProject s u b now \<or>
   (\<exists>ds. route_createProject s u b now = (Inl (ValidationError ds), s))"
  by (auto simp: route_createProject_def validateCreateProject_def validation_answer_def
      split: option.splits)

lemma route_updateProject_cases:
  "route_updateProject lb s p b now = updateProject lb s p b now \<or>
   (\<exists>ds. route_updateProject lb s p b now = (Inl (ValidationError ds), s))"
  by (auto simp: route_updateProject_def validateUpdateProject_def validation_answer_def
      split: option.splits)

section \<open>Deactivating a client\<close>

text \<open>
  The count in the message of the Conflict answer is printed in decimal digits, and
  reading them back gives the count.
\<close>

lemma digit_char_value: "d < 10 \<Longrightarrow> (of_char (digit_char d) :: nat) = 48 + d"
  by (simp add: digit_char_def)

lemma digit_char_digit: "d < 10 \<Longrightarrow> digit_char d \<in> set ''0123456789''"
proof -
  assume "d < 10"
  then have "d \<in> {0, 1, 2, 3, 4, 5, 6, 7, 8, 9}" by auto
  then show ?thesis by (auto simp: digit_char_def) code_simp+
qed

lemma decimal_value_snoc:
  "decimal_value (xs @ [c]) = 10 * decimal_value xs + (of_char c - 48)"
  by (simp add: decimal_value_def)

lemma decimal_value_string_of_nat: "decimal_value (string_of_nat n) = n"
proof (induction n rule: string_of_nat.induct)
  case (1 n)
  show ?case
  proof (cases "n < 10")
    case True
    then show ?thesis
      by (subst string_of_nat.simps) (simp add: decimal_value_def digit_char_value)
  next
    case False
    have m: "n mod 10 < 10" by simp
    have "decimal_value (string_of_nat n) =
            10 * decimal_value (string_of_nat (n div 10)) + (of_char (digit_char (n mod 10)) - 48)"
      using False by (subst string_of_nat.simps) (simp add: decimal_value_snoc)
    also have "\<dots> = 10 * (n div 10) + n mod 10"
      using 1[OF False] digit_char_value[OF m] by simp
    finally show ?thesis by simp
  qed
qed

lemma string_of_nat_digits: "set (string_of_nat n) \<subseteq> set ''0123456789''"
proof (induction n rule: string_of_nat.induct)
  case (1 n)
  show ?case
  proof (cases "n < 10")
    case True
    then show ?thesis
      using digit_char_digit[OF True] by (subst string_of_nat.simps) simp
  next
    case False
    have m: "n mod 10 < 10" by simp
    show ?thesis
      using False 1[OF False] digit_char_digit[OF m]
      by (subst string_of_nat.simps) simp
  qed
qed

lemma activeProjectsMessage_count:
  "\<exists>d. activeProjectsMessage n =
          ''Cannot delete client with '' @ d @
          '' active project(s). Please complete or cancel projects first.'' \<and>
        set d \<subseteq> set ''0123456789'' \<and> decimal_value d = n"
  using string_of_nat_digits[of n] decimal_value_string_of_nat[of n]
  by (intro exI[of _ "string_of_nat n"]) (simp add: activeProjectsMessage_def)

text \<open>
  The route runs the handler for an admin and answers Forbidden to anyone else; a path
  parameter that is not of ObjectId form is answered with the 500 of the handler.
\<close>

lemma route_deleteClient_admin:
  "u_role u = ''admin'' \<Longrightarrow> route_deleteClient s u p now = deleteClient s p now"
  by (simp add: route_deleteClient_def authorize_def)

lemma route_deleteClient_forbidden:
  "u_role u \<noteq> ''admin'' \<Longrightarrow> \<exists>m. route_deleteClient s u p now = (Inl (Forbidden m), s)"
  by (simp add: route_deleteClient_def authorize_def)

lemma deleteClient_malformed:
  "deleteClient s Malformed now = (Inl (Internal ''Error deleting client''), s)"
  by (simp add: deleteClient_def Client_findById_def)

text \<open>
  Claim C1. For a client id that resolves, \<open>DELETE /clients/:id\<close> answers Conflict
  exactly when some project that references the client is pending or in progress. The
  message of that answer is the sentence of the source around a string of decimal
  digits, and the number these digits stand for is the number of such projects.
  Otherwise the operation succeeds, and the client it returns and stores has status
  inactive. In both cases the store keeps every client record and every project. For an
  id that does not resolve the answer is NotFound.
\<close>

theorem C1_deactivate:
  "(find (\<lambda>c. c_id c = i) (clients s) = None \<longrightarrow>
      deleteClient s (Oid i) now = (Inl (NotFound ''Client not found''), s)) \<and>
   (\<forall>c. find (\<lambda>c. c_id c = i) (clients s) = Some c \<longrightarrow>
      (case deleteClient s (Oid i) now of (r, s') \<Rightarrow>
         ((\<exists>m. r = Inl (Conflict m)) \<longleftrightarrow>
            (\<exists>q \<in> set (projects s). p_clientId q = i \<and>
               (p_status q = ''pending'' \<or> p_status q = ''in-progress''))) \<and>
         ((\<exists>m. r = Inl (Conflict m)) \<longrightarrow>
            (\<exists>d. r = Inl (Conflict (''Cannot delete client with '' @ d @
                         '' active project(s). Please complete or cancel projects first.'')) \<and>
                 set d \<subseteq> set ''0123456789'' \<and>
                 decimal_value d =
                   length (filter (\<lambda>q. p_clientId q = i \<and>
                     (p_status q = ''pending'' \<or> p_status q = ''in-progress'')) (projects s))) \<and>
            s' = s) \<and>
         ((\<nexists>m. r = Inl (Conflict m)) \<longrightarrow>
            (\<exists>c'. r = Inr c' \<and> c_status c' = ''inactive'' \<and>
               find (\<lambda>c. c_id c = i) (clients s') = Some c')) \<and>
         map c_id (clients s') = map c_id (clients s) \<and>
         projects s' = projects s))"
proof (intro conjI allI impI)
  assume "find (\<lambda>c. c_id c = i) (clients s) = None"
  then show "deleteClient s (Oid i) now = (Inl (NotFound ''Client not found''), s)"
    by (rule deleteClient_missing)
next
  fix c assume f: "find (\<lambda>c. c_id c = i) (clients s) = Some c"
  have n: "length (filter (\<lambda>q. p_clientId q = i \<and>
              (p_status q = ''pending'' \<or> p_status q = ''in-progress'')) (projects s))
           = activeProjects s i"
    by (simp add: activeProjects_def)
  show "case deleteClient s (Oid i) now of (r, s') \<Rightarrow>
         ((\<exists>m. r = Inl (Conflict m)) \<longleftrightarrow>
            (\<exists>q \<in> set (projects s). p_clientId q = i \<and>
               (p_status q = ''pending'' \<or> p_status q = ''in-progress''))) \<and>
         ((\<exists>m. r = Inl (Conflict m)) \<longrightarrow>
            (\<exists>d. r = Inl (Conflict (''Cannot delete client with '' @ d @
                         '' active project(s). Please complete or cancel projects first.'')) \<and>
                 set d \<subseteq> set ''0123456789'' \<and>
                 decimal_value d =
                   length (filter (\<lambda>q. p_clientId q = i \<and>
                     (p_status q = ''pending'' \<or> p_status q = ''in-progress'')) (projects s))) \<and>
            s' = s) \<and>
         ((\<nexists>m. r = Inl (Conflict m)) \<longrightarrow>
            (\<exists>c'. r = Inr c' \<and> c_status c' = ''inactive'' \<and>
               find (\<lambda>c. c_id c = i) (clients s') = Some c')) \<and>
         map c_id (clients s') = map c_id (clients s) \<and>
         projects s' = projects s"
  proof (cases "0 < activeProjects s i")
    case True
    from activeProjectsMessage_count[of "activeProjects s i"] obtain d where
      d: "activeProjectsMessage (activeProjects s i) =
            ''Cannot delete client with '' @ d @
            '' active project(s). Please complete or cancel projects first.''"
         "set d \<subseteq> set ''0123456789''" "decimal_value d = activeProjects s i"
      by blast
    have ex: "\<exists>q \<in> set (projects s). p_clientId q = i \<and>
               (p_status q = ''pending'' \<or> p_status q = ''in-progress'')"
      using True activeProjects_pos_iff[of s i] by simp
    have r: "deleteClient s (Oid i) now =
        (Inl (Conflict (''Cannot delete client with '' @ d @
           '' active project(s). Please complete or cancel projects first.'')), s)"
      using deleteClient_conflict[OF f True] d(1) by simp
    show ?thesis
      unfolding n r using ex d(2,3) by (auto intro!: exI[of _ d])
  next
    case False
    then have z: "activeProjects s i = 0" by simp
    have nex: "\<not> (\<exists>q \<in> set (projects s). p_clientId q = i \<and>
               (p_status q = ''pending'' \<or> p_status q = ''in-progress''))"
      using False activeProjects_pos_iff[of s i] by simp
    have ci: "c_id c = i" using f by (auto dest: find_Some_P)
    have f1: "find (\<lambda>c. c_id c = i) (updateOne (\<lambda>d. c_id d = i)
                (\<lambda>d. d\<lparr>c_status := ''inactive'', c_updatedAt := now\<rparr>) (clients s)) =
              Some (c\<lparr>c_status := ''inactive'', c_updatedAt := now\<rparr>)"
      using find_updateOne_same[OF f, of "\<lambda>d. d\<lparr>c_status := ''inactive'', c_updatedAt := now\<rparr>"] ci
      by simp
    show ?thesis
    proof (cases "c_status c = ''inactive''")
      case True
      then show ?thesis unfolding n using f nex deleteClient_ok[OF f z, of now] by simp
    next
      case False
      then show ?thesis unfolding n using f1 nex deleteClient_ok[OF f z, of now]
        by (simp add: updateOne_map_key)
    qed
  qed
qed


theorem C1_deactivate_witness:
  "deleteClient store_pending (Oid 1) 30 =
     (Inl (Conflict
        ''Cannot delete client with 1 active project(s). Please complete or cancel projects first.''),
      store_pending)"
proof -
  have f: "find (\<lambda>c. c_id c = 1) (clients store_pending) = Some acme"
    by (simp add: store_pending_def acme_def)
  have n: "length (filter (\<lambda>q. p_clientId q = 1 \<and>
               (p_status q = ''pending'' \<or> p_status q = ''in-progress''))
             (projects store_pending)) = 1"
    by (simp add: store_pending_def website_def)
  have ex: "\<exists>q \<in> set (projects store_pending). p_clientId q = 1 \<and>
               (p_status q = ''pending'' \<or> p_status q = ''in-progress'')"
    by (simp add: store_pending_def website_def)
  obtain r s' where rs: "deleteClient store_pending (Oid 1) 30 = (r, s')"
    by (cases "deleteClient store_pending (Oid 1) 30")
  from C1_deactivate[of 1 store_pending 30] f rs ex n
  obtain d where d: "r = Inl (Conflict (''Cannot delete client with '' @ d @
        '' active project(s). Please complete or cancel projects first.''))"
      "decimal_value d = 1" and s': "s' = store_pending"
    by auto
  have ap: "activeProjects store_pending 1 = 1"
    by (simp add: activeProjects_def store_pending_def website_def)
  then have pos: "0 < activeProjects store_pending 1" by simp
  have "deleteClient store_pending (Oid 1) 30 =
     (Inl (Conflict (activeProjectsMessage 1)), store_pending)"
    using deleteClient_conflict[OF f pos, of 30] by (simp only: ap)
  moreover have "activeProjectsMessage 1 =
      ''Cannot delete client with 1 active project(s). Please complete or cancel projects first.''"
    by code_simp
  ultimately show ?thesis using rs d s' by simp
qed

text \<open>
  Claim C10. When no project of the client is pending or in progress, deactivating
  succeeds, and deactivating a second time succeeds with the same client and leaves the
  store as the first run left it: nothing rejects a client that is inactive already.
\<close>

theorem C10_deactivate_idempotent:
  assumes f: "find (\<lambda>c. c_id c = i) (clients s) = Some c"
      and z: "\<forall>q \<in> set (projects s). p_clientId q = i \<longrightarrow>
                p_status q \<noteq> ''pending'' \<and> p_status q \<noteq> ''in-progress''"
  shows "\<exists>c1 s1. deleteClient s (Oid i) t1 = (Inr c1, s1) \<and>
                 deleteClient s1 (Oid i) t2 = (Inr c1, s1) \<and>
                 c_status c1 = ''inactive'' \<and>
                 find (\<lambda>c. c_id c = i) (clients s1) = Some c1"
proof -
  have z0: "activeProjects s i = 0"
    using z activeProjects_pos_iff[of s i] by auto
  have ci: "c_id c = i" using f by (auto dest: find_Some_P)
  show ?thesis
  proof (cases "c_status c = ''inactive''")
    case True
    then show ?thesis using deleteClient_ok[OF f z0] f by simp
  next
    case False
    let ?c1 = "c\<lparr>c_status := ''inactive'', c_updatedAt := t1\<rparr>"
    let ?s1 = "s\<lparr>clients := updateOne (\<lambda>d. c_id d = i)
                (\<lambda>d. d\<lparr>c_status := ''inactive'', c_updatedAt := t1\<rparr>) (clients s)\<rparr>"
    have r1: "deleteClient s (Oid i) t1 = (Inr ?c1, ?s1)"
      using deleteClient_ok[OF f z0, of t1] False by simp
    have f1: "find (\<lambda>c. c_id c = i) (clients ?s1) = Some ?c1"
      using find_updateOne_same[OF f, of "\<lambda>d. d\<lparr>c_status := ''inactive'', c_updatedAt := t1\<rparr>"] ci
      by simp
    have z1: "activeProjects ?s1 i = 0" using z0 by (simp add: activeProjects_def)
    have r2: "deleteClient ?s1 (Oid i) t2 = (Inr ?c1, ?s1)"
      using deleteClient_ok[OF f1 z1, of t2] by simp
    show ?thesis using r1 r2 f1 by simp
  qed
qed


theorem C10_deactivate_idempotent_witness:
  "\<exists>c1 s1. deleteClient store_completed (Oid 1) 30 = (Inr c1, s1) \<and>
           deleteClient s1 (Oid 1) 40 = (Inr c1, s1) \<and>
           c_status c1 = ''inactive'' \<and>
           find (\<lambda>c. c_id c = 1) (clients s1) = Some c1"
  using C10_deactivate_idempotent[of 1 store_completed acme 30 40]
  by (simp add: store_completed_def acme_def website_def)

section \<open>Projects and their client\<close>

text \<open>
  Claim C2. When the \<open>clientId\<close> of the body resolves to an inactive client, creating
  a project and updating one both answer Conflict; when it does not resolve, both
  answer NotFound. In all four cases the store stays as it was, also when the request
  goes through the validation middleware first.
\<close>

theorem C2_inactive_or_missing_client:
  assumes cl: "pb_clientId b = Some (Oid i)"
  shows "(\<forall>c. find (\<lambda>c. c_id c = i) (clients s) = Some c \<and> c_status c = ''inactive'' \<longrightarrow>
            createProject s u b now =
              (Inl (Conflict ''Cannot create project for inactive client''), s) \<and>
            updateProject lb s p b now =
              (Inl (Conflict ''Cannot assign project to inactive client''), s) \<and>
            snd (route_createProject s u b now) = s \<and>
            snd (route_updateProject lb s p b now) = s) \<and>
         (find (\<lambda>c. c_id c = i) (clients s) = None \<longrightarrow>
            createProject s u b now = (Inl (NotFound ''Client not found''), s) \<and>
            updateProject lb s p b now = (Inl (NotFound ''Client not found''), s) \<and>
            snd (route_createProject s u b now) = s \<and>
            snd (route_updateProject lb s p b now) = s)"
proof (intro conjI allI impI)
  fix c assume a: "find (\<lambda>c. c_id c = i) (clients s) = Some c \<and> c_status c = ''inactive''"
  have c1: "createProject s u b now =
              (Inl (Conflict ''Cannot create project for inactive client''), s)"
    using cl a by (simp add: createProject_def Client_findById_def)
  have u1: "updateProject lb s p b now =
              (Inl (Conflict ''Cannot assign project to inactive client''), s)"
    using cl a by (simp add: updateProject_def updateProject_client_def Client_findById_def)
  show "createProject s u b now =
              (Inl (Conflict ''Cannot create project for inactive client''), s)" by (rule c1)
  show "updateProject lb s p b now =
              (Inl (Conflict ''Cannot assign project to inactive client''), s)" by (rule u1)
  show "snd (route_createProject s u b now) = s"
    using route_createProject_cases[of s u b now] c1 by auto
  show "snd (route_updateProject lb s p b now) = s"
    using route_updateProject_cases[of lb s p b now] u1 by auto
next
  assume a: "find (\<lambda>c. c_id c = i) (clients s) = None"
  have c1: "createProject s u b now = (Inl (NotFound ''Client not found''), s)"
    using cl a by (simp add: createProject_def Client_findById_def)
  have u1: "updateProject lb s p b now = (Inl (NotFound ''Client not found''), s)"
    using cl a by (simp add: updateProject_def updateProject_client_def Client_findById_def)
  show "createProject s u b now = (Inl (NotFound ''Client not found''), s)" by (rule c1)
  show "updateProject lb s p b now = (Inl (NotFound ''Client not found''), s)" by (rule u1)
  show "snd (route_createProject s u b now) = s"
    using route_createProject_cases[of s u b now] c1 by auto
  show "snd (route_updateProject lb s p b now) = s"
    using route_updateProject_cases[of lb s p b now] u1 by auto
qed


theorem C2_inactive_or_missing_client_witness:
  "createProject store_inactive creator website_body 60 =
     (Inl (Conflict ''Cannot create project for inactive client''), store_inactive) \<and>
   updateProject example_lib store_inactive (Oid 2) website_body 60 =
     (Inl (Conflict ''Cannot assign project to inactive client''), store_inactive) \<and>
   createProject empty_store creator website_body 60 =
     (Inl (NotFound ''Client not found''), empty_store)"
  using C2_inactive_or_missing_client[of website_body 1 store_inactive creator 60
      example_lib "Oid 2"]
    C2_inactive_or_missing_client[of website_body 1 empty_store creator 60
      example_lib "Oid 2"]
  by (simp add: website_body_def store_inactive_def acme_def empty_store_def)

section \<open>Deleting a project\<close>

lemma deleteProject_malformed:
  "deleteProject s u Malformed = (Inl (Internal ''Error deleting project''), s)"
  by (simp add: deleteProject_def Project_findById_def)

text \<open>
  Claim C8. Deleting a project answers NotFound when the id does not resolve, and
  Forbidden unless the actor created the project or is an admin; in both cases the
  store is unchanged. When permitted, the record of the project is taken out of the
  collection and every other record stays as it was.
\<close>

theorem C8_delete_project:
  "(find (\<lambda>q. p_id q = i) (projects s) = None \<longrightarrow>
      deleteProject s u (Oid i) = (Inl (NotFound ''Project not found''), s)) \<and>
   (\<forall>q. find (\<lambda>q. p_id q = i) (projects s) = Some q \<longrightarrow>
      (if p_createdBy q = u_id u \<or> u_role u = ''admin''
       then \<exists>s' before after.
              deleteProject s u (Oid i) = (Inr (), s') \<and>
              projects s = before @ q # after \<and>
              projects s' = before @ after \<and>
              clients s' = clients s \<and> next_id s' = next_id s
       else deleteProject s u (Oid i) =
              (Inl (Forbidden ''Not authorized to delete this project''), s)))"
proof (intro conjI allI impI)
  assume "find (\<lambda>q. p_id q = i) (projects s) = None"
  then show "deleteProject s u (Oid i) = (Inl (NotFound ''Project not found''), s)"
    by (simp add: deleteProject_def Project_findById_def)
next
  fix q assume f: "find (\<lambda>q. p_id q = i) (projects s) = Some q"
  show "if p_createdBy q = u_id u \<or> u_role u = ''admin''
       then \<exists>s' before after.
              deleteProject s u (Oid i) = (Inr (), s') \<and>
              projects s = before @ q # after \<and>
              projects s' = before @ after \<and>
              clients s' = clients s \<and> next_id s' = next_id s
       else deleteProject s u (Oid i) =
              (Inl (Forbidden ''Not authorized to delete this project''), s)"
  proof (cases "p_createdBy q = u_id u \<or> u_role u = ''admin''")
    case True
    from find_deleteOne_split[OF f] obtain as bs where
      sp: "projects s = as @ q # bs" "deleteOne (\<lambda>q. p_id q = i) (projects s) = as @ bs"
      by blast
    have "deleteProject s u (Oid i) =
            (Inr (), s\<lparr>projects := deleteOne (\<lambda>q. p_id q = i) (projects s)\<rparr>)"
      using f True
      by (auto simp: deleteProject_def Project_findById_def Project_findByIdAndDelete_def)
    with sp True show ?thesis by auto
  next
    case False
    then show ?thesis using f
      by (simp add: deleteProject_def Project_findById_def)
  qed
qed


theorem C8_delete_project_witness:
  "deleteProject store_pending stranger (Oid 2) =
     (Inl (Forbidden ''Not authorized to delete this project''), store_pending) \<and>
   (\<exists>s'. deleteProject store_pending creator (Oid 2) = (Inr (), s') \<and> projects s' = [])"
  using C8_delete_project[of 2 store_pending stranger]
    C8_delete_project[of 2 store_pending creator]
  by (auto simp: store_pending_def website_def stranger_def creator_def
      append_eq_Cons_conv Cons_eq_append_conv)

section \<open>Validation of a create request\<close>

text \<open>
  Whatever the body, the answer of the validation middleware of a create route lists
  one error: the first one in the order of the schema.
\<close>

lemma joi_validate_abortEarly_length: "length (joi_validate True es) \<le> 1"
  by (simp add: joi_validate_def)

lemma validateCreateClient_one_detail:
  "validateCreateClient lb b = Some e \<Longrightarrow> \<exists>d. e = ValidationError [d]"
proof -
  assume a: "validateCreateClient lb b = Some e"
  let ?ds = "joi_validate True (joi_key_errors (createClientSchema lb) b)"
  have "length ?ds \<le> 1" by (rule joi_validate_abortEarly_length)
  moreover have "?ds \<noteq> []" and "e = ValidationError ?ds"
    using a by (auto simp: validateCreateClient_def validation_answer_def split: if_splits)
  ultimately show ?thesis by (cases ?ds) auto
qed

lemma validateCreateProject_one_detail:
  "validateCreateProject b = Some e \<Longrightarrow> \<exists>d. e = ValidationError [d]"
proof -
  assume a: "validateCreateProject b = Some e"
  let ?ds = "joi_validate True (joi_key_errors createProjectSchema b)"
  have "length ?ds \<le> 1" by (rule joi_validate_abortEarly_length)
  moreover have "?ds \<noteq> []" and "e = ValidationError ?ds"
    using a by (auto simp: validateCreateProject_def validation_answer_def split: if_splits)
  ultimately show ?thesis by (cases ?ds) auto
qed

text \<open>
  Claim C5 says that a create request that breaks the rules of several fields is
  answered with one entry per offending field. The code answers with the first entry
  only: the empty body of \<open>POST /api/clients\<close> breaks the rules of \<open>name\<close>,
  \<open>email\<close>, \<open>phone\<close> and \<open>company\<close>, and the answer lists \<open>name\<close>; the empty
  body of \<open>POST /api/projects\<close> breaks the rules of six fields, and the answer lists
  \<open>title\<close>. (The repository's test of the empty client body expects four entries.)
\<close>

theorem C5_validation_lists_first_error_only:
  "validateCreateClient lb no_client_body =
     Some (ValidationError [\<lparr>field = Some ''name'', message = ''Name is required''\<rparr>]) \<and>
   map field (joi_key_errors (createClientSchema lb) no_client_body) =
     [Some ''name'', Some ''email'', Some ''phone'', Some ''company''] \<and>
   validateCreateProject no_project_body =
     Some (ValidationError [\<lparr>field = Some ''title'', message = ''Title is required''\<rparr>]) \<and>
   map field (joi_key_errors createProjectSchema no_project_body) =
     [Some ''title'', Some ''description'', Some ''clientId'', Some ''startDate'',
      Some ''endDate'', Some ''budget'']"
proof (intro conjI)
  show "validateCreateClient lb no_client_body =
     Some (ValidationError [\<lparr>field = Some ''name'', message = ''Name is required''\<rparr>])"
    by (simp add: validateCreateClient_def no_client_body_def createClientSchema_def
        joi_key_errors_def joi_validate_def validation_answer_def joi_required_def
        joi_optional_def)
  show "map field (joi_key_errors (createClientSchema lb) no_client_body) =
     [Some ''name'', Some ''email'', Some ''phone'', Some ''company'']"
    by (simp add: no_client_body_def createClientSchema_def joi_key_errors_def
        joi_required_def joi_optional_def)
  show "validateCreateProject no_project_body =
     Some (ValidationError [\<lparr>field = Some ''title'', message = ''Title is required''\<rparr>])"
    by (simp add: validateCreateProject_def no_project_body_def createProjectSchema_def
        joi_key_errors_def joi_validate_def validation_answer_def joi_required_def
        joi_optional_def)
  show "map field (joi_key_errors createProjectSchema no_project_body) =
     [Some ''title'', Some ''description'', Some ''clientId'', Some ''startDate'',
      Some ''endDate'', Some ''budget'']"
    by (simp add: no_project_body_def createProjectSchema_def joi_key_errors_def
        joi_required_def joi_optional_def)
qed

section \<open>The filter of the project list\<close>

text \<open>A budget bound of zero adds nothing to the filter.\<close>

lemma buildProjectQuery_budget_zero:
  "q_budgetMin q \<in> {None, Some 0} \<Longrightarrow> q_budgetMax q \<in> {None, Some 0} \<Longrightarrow>
   f_budget (buildProjectQuery q) = None"
  by (auto simp: buildProjectQuery_def truthy_num_def)

text \<open>
  Claim C6 says that the list holds exactly the projects within every bound supplied,
  the value 0 of \<open>budgetMax\<close> included. The code tests \<open>if (budgetMin || budgetMax)\<close>
  and \<open>if (budgetMax)\<close>, and 0 is false: with \<open>budgetMax=0\<close> as the only parameter
  the list holds the project of budget 25000.
\<close>

theorem C6_budgetMax_zero_is_no_bound:
  "route_getProjects lb store_pending (no_query\<lparr>rq_budgetMax := Some 0\<rparr>) =
     Inr \<lparr>items = [website],
          paging = \<lparr>currentPage = 1, totalPages = 1, totalRecords = 1, hasNextPage = False,
                    hasPrevPage = False, pg_limit = 10\<rparr>\<rparr> \<and>
   p_budget website = 25000"
  by (simp add: route_getProjects_def validateProjectQuery_def joi_validate_def
      joi_key_errors_def projectQuerySchema_def joi_optional_def joi_number_min_def
      joi_unsafe_def
      query_value_def no_query_def opt_set_def getProjects_def buildProjectQuery_def
      truthy_str_def truthy_num_def Project_matching_def project_matches_def
      store_pending_def paginate_def mongo_sort_def math_ceil_div_eq Let_def website_def)

section \<open>The dates of an updated project\<close>

text \<open>
  Two dates in one patch are compared by Joi. An \<open>endDate\<close> in the patch is refused
  by its update validator whenever \<open>this.startDate\<close> is undefined there, whatever the
  stored start date, and the handler answers with its 500.
\<close>

lemma updateProject_both_dates_joi:
  assumes "pb_startDate u = Some sd" and "pb_endDate u = Some e" and "e \<le> sd"
  shows "\<exists>ds. route_updateProject lb s p u now = (Inl (ValidationError ds), s)"
proof -
  have "\<lparr>field = Some ''endDate'', message = ''End date must be after start date''\<rparr>
          \<in> set (joi_key_errors updateProjectSchema u)"
    using assms
    by (simp add: joi_key_errors_def updateProjectSchema_def joi_optional_def
        joi_date_greater_def)
  then have "joi_key_errors updateProjectSchema u \<noteq> []" by auto
  then have "joi_validate True (joi_key_errors updateProjectSchema u @
        joi_object_min 1 ''At least one field must be provided for update''
          (project_body_keys u)) \<noteq> []"
    by (cases "joi_key_errors updateProjectSchema u") (simp_all add: joi_validate_def)
  then show ?thesis
    by (simp add: route_updateProject_def validateUpdateProject_def validation_answer_def)
qed

lemma updateProject_endDate_undefined_this:
  assumes "this_startDate lb = None" and "pb_endDate u = Some e"
    and "updateProject_client s u = None"
  shows "updateProject lb s p u now = (Inl (Internal ''Error updating project''), s)"
  using assms
  by (cases p)
    (simp_all add: updateProject_def Project_findByIdAndUpdate_def project_update_ok_def
      opt_ok_def project_endDate_ok_def)

text \<open>
  Claim C3 says that an update whose patch has \<open>startDate\<close> or \<open>endDate\<close> checks the
  order of the two dates as they will be stored, and that the stored project keeps
  its end after its start. The code compares the dates only when both are in the patch
  (Joi), or \<open>endDate\<close> with \<open>this.startDate\<close> of the update validator; a patch of
  \<open>startDate\<close> alone is checked against nothing. The project of the scenario ends at
  200; the patch \<open>{ startDate: 300 }\<close> is accepted and stored.
\<close>

theorem C3_startDate_patch_is_not_compared:
  "route_updateProject lb store_pending (Oid 2) (no_project_body\<lparr>pb_startDate := Some 300\<rparr>) 50 =
     (Inr (website\<lparr>p_startDate := 300, p_updatedAt := 50\<rparr>),
      store_pending\<lparr>projects := [website\<lparr>p_startDate := 300, p_updatedAt := 50\<rparr>]\<rparr>) \<and>
   p_endDate (website\<lparr>p_startDate := 300, p_updatedAt := 50\<rparr>) = 200"
  by (simp add: route_updateProject_def validateUpdateProject_def validation_answer_def
      joi_validate_def joi_key_errors_def updateProjectSchema_def joi_optional_def joi_any_def
      joi_object_min_def project_body_keys_def no_project_body_def updateProject_def
      updateProject_client_def Project_findByIdAndUpdate_def project_update_ok_def opt_ok_def
      store_pending_def website_def project_set_def opt_set_def)

section \<open>Sorting and pagination\<close>

text \<open>The sort rearranges the matching records and orders them by the chosen key.\<close>

lemma set_insert_by: "set (insert_by le x xs) = insert x (set xs)"
  by (induction xs) auto



lemma set_mongo_sort: "set (mongo_sort key asc xs) = set xs"
  unfolding mongo_sort_def by (induction xs) (simp_all add: set_insert_by)

lemma string_le_total: "string_le a b \<or> string_le b a"
  by (induction a b rule: string_le.induct) auto

lemma string_le_trans: "string_le a b \<Longrightarrow> string_le b c \<Longrightarrow> string_le a c"
proof (induction a b arbitrary: c rule: string_le.induct)
  case (1 ys)
  then show ?case by simp
next
  case (2 x xs)
  then show ?case by simp
next
  case (3 x xs y ys)
  then show ?case by (cases c) auto
qed

lemma sort_le_total: "sort_le a b \<or> sort_le b a"
  using string_le_total by (cases a; cases b) auto

lemma sort_le_trans: "sort_le a b \<Longrightarrow> sort_le b c \<Longrightarrow> sort_le a c"
  using string_le_trans by (cases a; cases b; cases c) auto

lemma sorted_wrt_insert_by:
  assumes tot: "\<And>a b. le a b \<or> le b a" and tr: "\<And>a b c. le a b \<Longrightarrow> le b c \<Longrightarrow> le a c"
  shows "sorted_wrt le xs \<Longrightarrow> sorted_wrt le (insert_by le x xs)"
proof (induction xs)
  case Nil
  then show ?case by simp
next
  case (Cons y ys)
  show ?case
  proof (cases "le x y")
    case True
    then show ?thesis using Cons.prems tr by auto
  next
    case False
    then have "le y x" using tot by blast
    then show ?thesis using Cons False by (auto simp: set_insert_by)
  qed
qed

lemma sorted_mongo_sort:
  "sorted_wrt (\<lambda>a b. if asc then sort_le (key a) (key b) else sort_le (key b) (key a))
     (mongo_sort key asc xs)"
  unfolding mongo_sort_def
proof (induction xs)
  case Nil
  then show ?case by simp
next
  case (Cons x xs)
  show ?case
    unfolding foldr.simps o_apply
  proof (rule sorted_wrt_insert_by)
    show "sorted_wrt (\<lambda>a b. if asc then sort_le (key a) (key b) else sort_le (key b) (key a))
     (foldr (insert_by (\<lambda>a b. if asc then sort_le (key a) (key b) else sort_le (key b) (key a))) xs [])"
      by (rule Cons.IH)
  next
    fix a b show "(if asc then sort_le (key a) (key b) else sort_le (key b) (key a)) \<or>
       (if asc then sort_le (key b) (key a) else sort_le (key a) (key b))"
      using sort_le_total by auto
  next
    fix a b c
    assume "if asc then sort_le (key a) (key b) else sort_le (key b) (key a)"
      and "if asc then sort_le (key b) (key c) else sort_le (key c) (key b)"
    then show "if asc then sort_le (key a) (key c) else sort_le (key c) (key a)"
      using sort_le_trans by (auto split: if_splits)
  qed
qed











section \<open>Invariants of the reachable stores\<close>

text \<open>
  Each writing handler leaves the store as it was or changes it in one described way;
  each route is its handler or leaves the store as it was. The invariants follow by
  induction on the routes taken.
\<close>

lemma lower_char_idem: "lower_char (lower_char c) = lower_char c"
proof (cases "65 \<le> (of_char c :: nat) \<and> (of_char c :: nat) \<le> 90")
  case True
  then have "(of_char (char_of (of_char c + 32 :: nat)) :: nat) = of_char c + 32"
    by (simp add: of_char_of)
  with True show ?thesis by (simp add: lower_char_def Let_def)
next
  case False
  then show ?thesis by (auto simp: lower_char_def Let_def)
qed

lemma toLowerCase_idem: "toLowerCase (toLowerCase x) = toLowerCase x"
  by (simp add: toLowerCase_def lower_char_idem)

lemma set_updateOne: "set (updateOne P f xs) \<subseteq> set xs \<union> f ` {x \<in> set xs. P x}"
  by (induction xs) auto

lemma set_deleteOne: "set (deleteOne P xs) \<subseteq> set xs"
  by (induction xs) auto

lemma find_None_iff': "find P xs = None \<longleftrightarrow> (\<forall>x \<in> set xs. \<not> P x)"
  by (induction xs) auto

lemma distinct_updateOne_key:
  assumes "\<And>x. g (f x) = e" and "\<And>x. k (f x) = k x"
  shows "distinct (map k xs) \<Longrightarrow> distinct (map g xs) \<Longrightarrow>
         \<forall>x \<in> set xs. k x \<noteq> i \<longrightarrow> g x \<noteq> e \<Longrightarrow>
         distinct (map g (updateOne (\<lambda>x. k x = i) f xs))"
proof (induction xs)
  case Nil
  then show ?case by simp
next
  case (Cons x xs)
  show ?case
  proof (cases "k x = i")
    case True
    have "k x \<notin> k ` set xs" using Cons.prems(1) by simp
    then have "\<forall>y \<in> set xs. k y \<noteq> i" using True by (metis image_eqI)
    then have "e \<notin> g ` set xs" using Cons.prems(3) by auto
    then show ?thesis using True Cons.prems(2) assms(1) by simp
  next
    case False
    have ih: "distinct (map g (updateOne (\<lambda>x. k x = i) f xs))"
      using Cons by simp
    have "g x \<noteq> e" using False Cons.prems(3) by simp
    moreover have "g x \<notin> g ` set xs" using Cons.prems(2) by simp
    ultimately have "g x \<notin> g ` set (updateOne (\<lambda>x. k x = i) f xs)"
      using set_updateOne[of "\<lambda>x. k x = i" f xs] assms(1) by auto
    then show ?thesis using False ih by simp
  qed
qed

lemma createClient_store:
  "snd (createClient lb s b now) = s \<or>
   (\<exists>c. snd (createClient lb s b now) = s\<lparr>clients := clients s @ [c], next_id := next_id s + 1\<rparr> \<and>
        fst (createClient lb s b now) = Inr c \<and>
        c_id c = next_id s \<and> c_email c \<noteq> [] \<and> toLowerCase (c_email c) = c_email c \<and>
        c_email c \<notin> c_email ` set (clients s))"
proof (cases "Client_findOne_email s (cb_email b)")
  case (Some a)
  then show ?thesis by (simp add: createClient_def)
next
  case None
  show ?thesis
  proof (cases "Client_create lb s b now")
    case (Inl a)
    then show ?thesis using None by (simp add: createClient_def)
  next
    case (Inr r)
    obtain c s' where r: "r = (c, s')" by (cases r)
    from Inr r obtain e where e: "cb_email b = Some e" and
      c: "c_email c = toLowerCase e" "c_id c = next_id s" "client_email_ok lb (c_email c)"
      and s': "s' = s\<lparr>clients := clients s @ [c], next_id := next_id s + 1\<rparr>"
      by (auto simp: Client_create_def Let_def split: option.splits if_splits)
    have "c_email c \<notin> c_email ` set (clients s)"
      using None e c(1) by (auto simp: Client_findOne_email_def find_None_iff')
    moreover have "c_email c \<noteq> []" using c(3) by (simp add: client_email_ok_def)
    moreover have "toLowerCase (c_email c) = c_email c" using c(1) by (simp add: toLowerCase_idem)
    ultimately show ?thesis using None Inr r s' c(2) by (simp add: createClient_def)
  qed
qed

lemma createClient_inv:
  assumes inv: "client_inv s"
  shows "client_inv (snd (createClient lb s b now))"
proof -
  from createClient_store[of lb s b now]
  consider (same) "snd (createClient lb s b now) = s"
    | (new) c where
        "snd (createClient lb s b now) =
           s\<lparr>clients := clients s @ [c], next_id := next_id s + 1\<rparr>"
        "c_id c = next_id s" "c_email c \<noteq> []" "toLowerCase (c_email c) = c_email c"
        "c_email c \<notin> c_email ` set (clients s)"
    by blast
  then show ?thesis
  proof cases
    case same
    then show ?thesis using inv by simp
  next
    case new
    have lt: "\<forall>d \<in> set (clients s). c_id d < next_id s"
      using inv by (simp add: client_inv_def)
    then have "c_id c \<notin> c_id ` set (clients s)" using new(2) by force
    then show ?thesis
      using inv new lt by (auto simp: client_inv_def less_Suc_eq)
  qed
qed

lemma toLowerCase_Nil_iff: "toLowerCase x = [] \<longleftrightarrow> x = []"
  by (simp add: toLowerCase_def)

lemma updateClient_store:
  "snd (updateClient lb s p u now) = s \<or>
   (\<exists>i. p = Oid i \<and> client_update_ok lb u \<and>
      (\<forall>e. cb_email u = Some e \<longrightarrow>
         e \<noteq> [] \<and> (\<forall>c \<in> set (clients s). c_id c \<noteq> i \<longrightarrow> c_email c \<noteq> toLowerCase e)) \<and>
      snd (updateClient lb s p u now) =
        s\<lparr>clients := updateOne (\<lambda>c. c_id c = i) (client_set u now) (clients s)\<rparr>)"
proof (cases p)
  case Malformed
  then show ?thesis
    by (simp add: updateClient_def Client_findOne_email_ne_def Client_findByIdAndUpdate_def)
next
  case (Oid i)
  show ?thesis
  proof (cases "client_update_ok lb u")
    case False
    then show ?thesis using Oid
      by (auto simp: updateClient_def Client_findOne_email_ne_def Client_findByIdAndUpdate_def
          split: option.splits)
  next
    case True
    have ne: "\<forall>e. cb_email u = Some e \<longrightarrow> e \<noteq> []"
      using True by (auto simp: client_update_ok_def opt_ok_def client_email_ok_def toLowerCase_def)
    show ?thesis
    proof (cases "cb_email u")
      case None
      then show ?thesis using Oid True
        by (auto simp: updateClient_def truthy_str_def Client_findByIdAndUpdate_def
            split: option.splits)
    next
      case (Some e)
      then have t: "truthy_str (cb_email u)" using ne by (simp add: truthy_str_def)
      show ?thesis
      proof (cases "find (\<lambda>c. c_email c = toLowerCase e \<and> c_id c \<noteq> i) (clients s)")
        case None
        then have "\<forall>c \<in> set (clients s). c_id c \<noteq> i \<longrightarrow> c_email c \<noteq> toLowerCase e"
          by (auto simp: find_None_iff')
        then show ?thesis using Oid True Some t None ne
          by (auto simp: updateClient_def Client_findOne_email_ne_def opt_set_def
              Client_findByIdAndUpdate_def split: option.splits)
      next
        case (Some a)
        then show ?thesis using Oid \<open>cb_email u = Some e\<close> t
          by (simp add: updateClient_def Client_findOne_email_ne_def opt_set_def)
      qed
    qed
  qed
qed

lemma client_set_id: "c_id (client_set u now c) = c_id c"
  by (simp add: client_set_def)

lemma client_set_email:
  "c_email (client_set u now c) =
     (case cb_email u of None \<Rightarrow> c_email c | Some e \<Rightarrow> toLowerCase e)"
  by (simp add: client_set_def opt_set_def split: option.splits)

lemma updateClient_inv:
  assumes inv: "client_inv s"
  shows "client_inv (snd (updateClient lb s p u now))"
proof -
  from updateClient_store[of lb s p u now]
  consider (same) "snd (updateClient lb s p u now) = s"
    | (new) i where "client_update_ok lb u"
        "\<forall>e. cb_email u = Some e \<longrightarrow>
           e \<noteq> [] \<and> (\<forall>c \<in> set (clients s). c_id c \<noteq> i \<longrightarrow> c_email c \<noteq> toLowerCase e)"
        "snd (updateClient lb s p u now) =
           s\<lparr>clients := updateOne (\<lambda>c. c_id c = i) (client_set u now) (clients s)\<rparr>"
    by blast
  then show ?thesis
  proof cases
    case same
    then show ?thesis using inv by simp
  next
    case new
    let ?xs = "updateOne (\<lambda>c. c_id c = i) (client_set u now) (clients s)"
    have ids: "map c_id ?xs = map c_id (clients s)"
      by (rule updateOne_map_key) (rule client_set_id)
    have em: "distinct (map c_email ?xs)"
    proof (cases "cb_email u")
      case None
      have "map c_email ?xs = map c_email (clients s)"
        by (rule updateOne_map_key) (simp add: client_set_email None)
      then show ?thesis using inv by (simp add: client_inv_def)
    next
      case (Some e)
      show ?thesis
      proof (rule distinct_updateOne_key[where e = "toLowerCase e"])
        show "\<And>x. c_email (client_set u now x) = toLowerCase e"
          by (simp add: client_set_email Some)
        show "\<And>x. c_id (client_set u now x) = c_id x" by (rule client_set_id)
        show "distinct (map c_id (clients s))" using inv by (simp add: client_inv_def)
        show "distinct (map c_email (clients s))" using inv by (simp add: client_inv_def)
        show "\<forall>x \<in> set (clients s). c_id x \<noteq> i \<longrightarrow> c_email x \<noteq> toLowerCase e"
          using new(2) Some by simp
      qed
    qed
    have each: "\<forall>c \<in> set ?xs.
         c_id c < next_id s \<and> c_email c \<noteq> [] \<and> toLowerCase (c_email c) = c_email c"
    proof
      fix c assume "c \<in> set ?xs"
      then consider "c \<in> set (clients s)"
        | d where "d \<in> set (clients s)" "c = client_set u now d"
        using set_updateOne[of "\<lambda>c. c_id c = i" "client_set u now" "clients s"] by auto
      then show "c_id c < next_id s \<and> c_email c \<noteq> [] \<and> toLowerCase (c_email c) = c_email c"
      proof cases
        case 1
        then show ?thesis using inv by (simp add: client_inv_def)
      next
        case 2
        have d: "c_id d < next_id s \<and> c_email d \<noteq> [] \<and> toLowerCase (c_email d) = c_email d"
          using 2(1) inv by (simp add: client_inv_def)
        show ?thesis
        proof (cases "cb_email u")
          case None
          then show ?thesis using d 2(2) by (simp add: client_set_id client_set_email)
        next
          case (Some e)
          then have "e \<noteq> []" using new(2) by simp
          then show ?thesis using d 2(2) Some
            by (simp add: client_set_id client_set_email toLowerCase_idem toLowerCase_Nil_iff)
        qed
      qed
    qed
    show ?thesis
      unfolding client_inv_def new(3) using ids em each inv
      by (simp add: client_inv_def)
  qed
qed

lemma deleteClient_store:
  "snd (deleteClient s p now) = s \<or>
   (\<exists>i. snd (deleteClient s p now) =
      s\<lparr>clients := updateOne (\<lambda>d. c_id d = i)
          (\<lambda>d. d\<lparr>c_status := ''inactive'', c_updatedAt := now\<rparr>) (clients s)\<rparr>)"
  by (auto simp: deleteClient_def Client_findById_def Project_countActive_def
      Client_save_status_def split: param.splits option.splits)

lemma deleteClient_inv:
  assumes inv: "client_inv s"
  shows "client_inv (snd (deleteClient s p now))"
proof -
  from deleteClient_store[of s p now]
  consider (same) "snd (deleteClient s p now) = s"
    | (new) i where "snd (deleteClient s p now) =
      s\<lparr>clients := updateOne (\<lambda>d. c_id d = i)
          (\<lambda>d. d\<lparr>c_status := ''inactive'', c_updatedAt := now\<rparr>) (clients s)\<rparr>"
    by blast
  then show ?thesis
  proof cases
    case same
    then show ?thesis using inv by simp
  next
    case new
    let ?f = "\<lambda>d. d\<lparr>c_status := ''inactive'', c_updatedAt := now\<rparr>"
    let ?xs = "updateOne (\<lambda>d. c_id d = i) ?f (clients s)"
    have ids: "map c_id ?xs = map c_id (clients s)" by (rule updateOne_map_key) simp
    have em: "map c_email ?xs = map c_email (clients s)" by (rule updateOne_map_key) simp
    have "\<forall>c \<in> set ?xs.
         c_id c < next_id s \<and> c_email c \<noteq> [] \<and> toLowerCase (c_email c) = c_email c"
      using set_updateOne[of "\<lambda>d. c_id d = i" ?f "clients s"] inv
      by (auto simp: client_inv_def)
    then show ?thesis unfolding new using ids em inv by (simp add: client_inv_def)
  qed
qed

lemma createProject_cases:
  "(\<exists>e. createProject s u b now = (Inl e, s)) \<or>
   (\<exists>q. createProject s u b now =
          (Inr q, s\<lparr>projects := projects s @ [q], next_id := next_id s + 1\<rparr>) \<and>
        p_status q = (case pb_status b of None \<Rightarrow> ''pending'' | Some st \<Rightarrow> st) \<and>
        p_status q \<in> set project_statuses)"
proof (cases "Project_create s b (u_id u) now")
  case (Inl a)
  then show ?thesis
    by (auto simp: createProject_def split: option.splits sum.splits)
next
  case (Inr r)
  obtain q s' where r: "r = (q, s')" by (cases r)
  from Inr r have
    "s' = s\<lparr>projects := projects s @ [q], next_id := next_id s + 1\<rparr>"
    "p_status q = (case pb_status b of None \<Rightarrow> ''pending'' | Some st \<Rightarrow> st)"
    "project_status_ok (p_status q)"
    by (auto simp: Project_create_def Let_def split: option.splits param.splits if_splits)
  then show ?thesis using Inr r
    by (auto simp: createProject_def project_status_ok_def
        split: option.splits sum.splits)
qed

lemma createProject_store:
  "snd (createProject s u b now) = s \<or>
   (\<exists>q. snd (createProject s u b now) =
          s\<lparr>projects := projects s @ [q], next_id := next_id s + 1\<rparr> \<and>
        p_status q \<in> set project_statuses)"
  using createProject_cases[of s u b now] by auto

lemma updateProject_store:
  "snd (updateProject lb s p u now) = s \<or>
   (\<exists>i. project_update_ok lb u \<and>
      snd (updateProject lb s p u now) =
        s\<lparr>projects := updateOne (\<lambda>q. p_id q = i) (project_set u now) (projects s)\<rparr>)"
  by (auto simp: updateProject_def Project_findByIdAndUpdate_def
      split: option.splits sum.splits param.splits)

lemma deleteProject_store:
  "snd (deleteProject s u p) = s \<or>
   (\<exists>i. snd (deleteProject s u p) =
      s\<lparr>projects := deleteOne (\<lambda>q. p_id q = i) (projects s)\<rparr>)"
  by (auto simp: deleteProject_def Project_findById_def Project_findByIdAndDelete_def
      split: option.splits sum.splits param.splits)

lemma route_createClient_snd:
  "snd (route_createClient lb s a b now) = s \<or>
   route_createClient lb s a b now = createClient lb s b now"
  by (auto simp: route_createClient_def split: option.splits)

lemma route_updateClient_snd:
  "snd (route_updateClient lb s a p b now) = s \<or>
   route_updateClient lb s a p b now = updateClient lb s p b now"
  by (auto simp: route_updateClient_def split: option.splits)

lemma route_deleteClient_snd:
  "snd (route_deleteClient s a p now) = s \<or>
   route_deleteClient s a p now = deleteClient s p now"
  by (auto simp: route_deleteClient_def split: option.splits)

lemma route_createProject_snd:
  "snd (route_createProject s u b now) = s \<or>
   route_createProject s u b now = createProject s u b now"
  by (auto simp: route_createProject_def split: option.splits)

lemma route_updateProject_snd:
  "snd (route_updateProject lb s p b now) = s \<or>
   route_updateProject lb s p b now = updateProject lb s p b now"
  by (auto simp: route_updateProject_def split: option.splits)

lemma client_inv_projects_only:
  "client_inv s \<Longrightarrow> clients s' = clients s \<Longrightarrow> next_id s \<le> next_id s' \<Longrightarrow> client_inv s'"
  by (fastforce simp: client_inv_def)

lemma status_inv_clients_only:
  "status_inv s \<Longrightarrow> projects s' = projects s \<Longrightarrow> status_inv s'"
  by (simp add: status_inv_def)

lemma createProject_client_inv:
  "client_inv s \<Longrightarrow> client_inv (snd (createProject s u b now))"
  using createProject_store[of s u b now]
  by (auto intro: client_inv_projects_only[of s])

lemma updateProject_client_inv:
  "client_inv s \<Longrightarrow> client_inv (snd (updateProject lb s p b now))"
  using updateProject_store[of lb s p b now]
  by (auto intro: client_inv_projects_only[of s])

lemma deleteProject_client_inv:
  "client_inv s \<Longrightarrow> client_inv (snd (deleteProject s u p))"
  using deleteProject_store[of s u p]
  by (auto intro: client_inv_projects_only[of s])

lemma createClient_status_inv:
  "status_inv s \<Longrightarrow> status_inv (snd (createClient lb s b now))"
  using createClient_store[of lb s b now]
  by (auto intro: status_inv_clients_only[of s])

lemma updateClient_status_inv:
  "status_inv s \<Longrightarrow> status_inv (snd (updateClient lb s p b now))"
  using updateClient_store[of lb s p b now]
  by (auto intro: status_inv_clients_only[of s])

lemma deleteClient_status_inv:
  "status_inv s \<Longrightarrow> status_inv (snd (deleteClient s p now))"
  using deleteClient_store[of s p now]
  by (auto intro: status_inv_clients_only[of s])

lemma createProject_status_inv:
  "status_inv s \<Longrightarrow> status_inv (snd (createProject s u b now))"
  using createProject_store[of s u b now]
  by (auto simp: status_inv_def)

lemma project_set_status:
  "project_update_ok lb u \<Longrightarrow> p_status q \<in> set project_statuses \<Longrightarrow>
   p_status (project_set u now q) \<in> set project_statuses"
  by (auto simp: project_update_ok_def project_set_def opt_ok_def opt_set_def
      project_status_ok_def split: option.splits)

lemma updateProject_status_inv:
  assumes inv: "status_inv s"
  shows "status_inv (snd (updateProject lb s p u now))"
proof -
  from updateProject_store[of lb s p u now]
  consider (same) "snd (updateProject lb s p u now) = s"
    | (new) i where "project_update_ok lb u"
        "snd (updateProject lb s p u now) =
           s\<lparr>projects := updateOne (\<lambda>q. p_id q = i) (project_set u now) (projects s)\<rparr>"
    by blast
  then show ?thesis
  proof cases
    case same
    then show ?thesis using inv by simp
  next
    case new
    have "\<forall>q \<in> set (updateOne (\<lambda>q. p_id q = i) (project_set u now) (projects s)).
            p_status q \<in> set project_statuses"
      using set_updateOne[of "\<lambda>q. p_id q = i" "project_set u now" "projects s"]
        project_set_status[OF new(1)] inv
      by (fastforce simp: status_inv_def)
    then show ?thesis unfolding new(2) by (simp add: status_inv_def)
  qed
qed

lemma deleteProject_status_inv:
  "status_inv s \<Longrightarrow> status_inv (snd (deleteProject s u p))"
  using deleteProject_store[of s u p] set_deleteOne[of _ "projects s"]
  by (fastforce simp: status_inv_def)

lemma reachable_inv: "reachable s \<Longrightarrow> client_inv s \<and> status_inv s"
proof (induction rule: reachable.induct)
  case reach_empty
  show ?case by (simp add: client_inv_def status_inv_def empty_store_def)
next
  case (reach_createClient s lb u cb now)
  then show ?case
    using route_createClient_snd[of lb s u cb now] createClient_inv[of s lb cb now]
      createClient_status_inv[of s lb cb now]
    by auto
next
  case (reach_updateClient s lb u p cb now)
  then show ?case
    using route_updateClient_snd[of lb s u p cb now] updateClient_inv[of s lb p cb now]
      updateClient_status_inv[of s lb p cb now]
    by auto
next
  case (reach_deleteClient s u p now)
  then show ?case
    using route_deleteClient_snd[of s u p now] deleteClient_inv[of s p now]
      deleteClient_status_inv[of s p now]
    by auto
next
  case (reach_createProject s u pb now)
  then show ?case
    using route_createProject_snd[of s u pb now] createProject_client_inv[of s u pb now]
      createProject_status_inv[of s u pb now]
    by auto
next
  case (reach_updateProject s lb p pb now)
  then show ?case
    using route_updateProject_snd[of lb s p pb now] updateProject_client_inv[of s lb p pb now]
      updateProject_status_inv[of s lb p pb now]
    by auto
next
  case (reach_deleteProject s u p)
  then show ?case
    using deleteProject_client_inv[of s u p] deleteProject_status_inv[of s u p]
    by auto
qed

lemma first_store_eq:
  "first_store =
     \<lparr>clients = [acme\<lparr>c_id := 0\<rparr>],
      projects = [website\<lparr>p_id := 1, p_clientId := 0\<rparr>], next_id = 2\<rparr>"
  by code_simp

lemma second_store_eq:
  "second_store =
     \<lparr>clients = [acme\<lparr>c_id := 0\<rparr>,
        \<lparr>c_id = 2, c_name = ''Globex'', c_email = ''info@globex.com'',
         c_phone = ''0987654321'', c_company = ''Globex'', c_address = None,
         c_status = ''active'', c_createdAt = 25, c_updatedAt = 25\<rparr>],
      projects = [website\<lparr>p_id := 1, p_clientId := 0\<rparr>], next_id = 3\<rparr>"
  by code_simp

lemma reachable_first_store: "reachable first_store"
  unfolding first_store_def by (intro reachable.intros)

lemma reachable_second_store: "reachable second_store"
  unfolding second_store_def by (intro reachable.intros reachable_first_store)

lemma find_Some_ex: "\<exists>x \<in> set xs. P x \<Longrightarrow> \<exists>y. find P xs = Some y"
  by (induction xs) auto

lemma getProjects_items: "getProjects lb s q = Inr pg \<Longrightarrow> set (items pg) \<subseteq> set (projects s)"
proof -
  assume "getProjects lb s q = Inr pg"
  then obtain ms where m: "Project_matching lb s (buildProjectQuery q) = Inr ms"
    and p: "pg = paginate (project_sort_value (q_sortBy q)) q ms"
    by (auto simp: getProjects_def split: sum.splits)
  have "set ms \<subseteq> set (projects s)"
    using m by (auto simp: Project_matching_def split: option.splits)
  moreover have "set (items pg) \<subseteq> set ms"
    unfolding p paginate_def Let_def
    using set_take_subset set_drop_subset set_mongo_sort
    by (metis (no_types, lifting) page.select_convs(1) subset_trans)
  ultimately show ?thesis by blast
qed

section \<open>Unique emails\<close>

text \<open>
  The handler is its check followed by \<open>createClient_write\<close> on the same store.
\<close>

lemma createClient_split:
  "createClient lb s b now =
     (case Client_findOne_email s (cb_email b) of
        Some existingClient \<Rightarrow> (Inl (Conflict ''Client with this email already exists''), s)
      | None \<Rightarrow> createClient_write lb s b now)"
  by (simp add: createClient_def createClient_write_def split: option.splits)

lemma raced_store_in_flight: "reachable_in_flight raced_store []"
proof -
  have a: "authorize [''admin''] admin = None" by (simp add: authorize_def admin_def)
  have v: "validateCreateClient example_lib acme_body = None" by code_simp
  have f: "Client_findOne_email empty_store (cb_email acme_body) = None"
    by (simp add: Client_findOne_email_def empty_store_def acme_body_def)
  have "reachable_in_flight empty_store []"
    by (intro reachable_in_flight.flight_none reachable.reach_empty)
  from reachable_in_flight.flight_check[OF this a v f]
  have "reachable_in_flight empty_store [acme_body]" by simp
  from reachable_in_flight.flight_check[OF this a v f]
  have "reachable_in_flight empty_store [acme_body, acme_body]" by simp
  from reachable_in_flight.flight_write[OF this, of acme_body example_lib 10]
  have "reachable_in_flight (snd (createClient_write example_lib empty_store acme_body 10))
          [acme_body]" by simp
  from reachable_in_flight.flight_write[OF this, of acme_body example_lib 11]
  show ?thesis by (simp add: raced_store_def)
qed

text \<open>
  Claim C4 says that no two clients have the same email in lower case at every
  reachable state of the system. With two requests in flight this fails: both
  requests to create Acme pass the check on the empty store, both write, and the
  store holds the email twice.
\<close>

theorem C4_interleaved_creates_counterexample:
  "reachable_in_flight raced_store [] \<and>
   map (toLowerCase \<circ> c_email) (clients raced_store) = [''a@acme.com'', ''a@acme.com''] \<and>
   \<not> distinct (map (toLowerCase \<circ> c_email) (clients raced_store))"
proof -
  have e: "map (toLowerCase \<circ> c_email) (clients raced_store) =
      [''a@acme.com'', ''a@acme.com'']"
    by code_simp
  show ?thesis using raced_store_in_flight e by simp
qed

text \<open>
  Claim C4, amended. When the requests are served one after the other, no two clients
  of a reachable store have the same email in lower case. There, creating a client
  with an email that an existing client has, and updating a client to an email that
  another client has, both answer Conflict and leave the store as it was (the emails
  compared in lower case), also through the middleware of the routes.
\<close>

theorem C4_unique_emails:
  "(reachable s \<longrightarrow> distinct (map (toLowerCase \<circ> c_email) (clients s))) \<and>
   (reachable s \<and> cb_email b = Some e \<and>
    (\<exists>c \<in> set (clients s). toLowerCase (c_email c) = toLowerCase e) \<longrightarrow>
      createClient lb s b now =
        (Inl (Conflict ''Client with this email already exists''), s) \<and>
      snd (route_createClient lb s a b now) = s) \<and>
   (reachable s \<and> cb_email b = Some e \<and>
    (\<exists>c \<in> set (clients s). c_id c \<noteq> i \<and> toLowerCase (c_email c) = toLowerCase e) \<longrightarrow>
      updateClient lb s (Oid i) b now =
        (Inl (Conflict ''Another client with this email already exists''), s) \<and>
      snd (route_updateClient lb s a (Oid i) b now) = s)"
proof (intro conjI impI)
  assume "reachable s"
  then have inv: "client_inv s" using reachable_inv by blast
  then have eq: "map (toLowerCase \<circ> c_email) (clients s) = map c_email (clients s)"
    by (simp add: client_inv_def)
  have d: "distinct (map c_email (clients s))" using inv by (simp add: client_inv_def)
  show "distinct (map (toLowerCase \<circ> c_email) (clients s))"
    unfolding eq by (rule d)
next
  assume a: "reachable s \<and> cb_email b = Some e \<and>
    (\<exists>c \<in> set (clients s). toLowerCase (c_email c) = toLowerCase e)"
  then have inv: "client_inv s" using reachable_inv by blast
  from a inv have "\<exists>c \<in> set (clients s). c_email c = toLowerCase e"
    by (auto simp: client_inv_def)
  from find_Some_ex[OF this] obtain y where
    "find (\<lambda>c. c_email c = toLowerCase e) (clients s) = Some y" ..
  then have r: "createClient lb s b now =
        (Inl (Conflict ''Client with this email already exists''), s)"
    using a by (simp add: createClient_def Client_findOne_email_def)
  show "createClient lb s b now =
        (Inl (Conflict ''Client with this email already exists''), s)" by (rule r)
  show "snd (route_createClient lb s a b now) = s"
    using route_createClient_snd[of lb s a b now] r by auto
next
  assume a: "reachable s \<and> cb_email b = Some e \<and>
    (\<exists>c \<in> set (clients s). c_id c \<noteq> i \<and> toLowerCase (c_email c) = toLowerCase e)"
  then have inv: "client_inv s" using reachable_inv by blast
  from a inv have ex: "\<exists>c \<in> set (clients s). c_email c = toLowerCase e \<and> c_id c \<noteq> i"
    by (auto simp: client_inv_def)
  from a inv have "toLowerCase e \<noteq> []" by (auto simp: client_inv_def)
  then have t: "truthy_str (cb_email b)" using a by (auto simp: truthy_str_def toLowerCase_def)
  from find_Some_ex[OF ex] obtain y where
    "find (\<lambda>c. c_email c = toLowerCase e \<and> c_id c \<noteq> i) (clients s) = Some y" ..
  then have r: "updateClient lb s (Oid i) b now =
        (Inl (Conflict ''Another client with this email already exists''), s)"
    using a t by (simp add: updateClient_def Client_findOne_email_ne_def opt_set_def)
  show "updateClient lb s (Oid i) b now =
        (Inl (Conflict ''Another client with this email already exists''), s)" by (rule r)
  show "snd (route_updateClient lb s a (Oid i) b now) = s"
    using route_updateClient_snd[of lb s a "Oid i" b now] r by auto
qed

theorem C4_unique_emails_witness:
  "reachable second_store \<and>
   map (toLowerCase \<circ> c_email) (clients second_store) = [''a@acme.com'', ''info@globex.com''] \<and>
   createClient example_lib second_store (acme_body\<lparr>cb_email := Some ''Info@Globex.COM''\<rparr>) 30 =
     (Inl (Conflict ''Client with this email already exists''), second_store) \<and>
   updateClient example_lib second_store (Oid 2) (no_client_body\<lparr>cb_email := Some ''A@Acme.com''\<rparr>) 30 =
     (Inl (Conflict ''Another client with this email already exists''), second_store)"
proof -
  have e1: "map (toLowerCase \<circ> c_email) (clients second_store) =
      [''a@acme.com'', ''info@globex.com'']"
    unfolding second_store_eq by code_simp
  have e2: "toLowerCase ''Info@Globex.COM'' = ''info@globex.com''"
    and e3: "toLowerCase ''A@Acme.com'' = ''a@acme.com''" by code_simp+
  have m1: "\<exists>c \<in> set (clients second_store).
      toLowerCase (c_email c) = toLowerCase ''Info@Globex.COM''"
    unfolding second_store_eq e2 by (simp add: acme_def) code_simp
  have m2: "\<exists>c \<in> set (clients second_store).
      c_id c \<noteq> 2 \<and> toLowerCase (c_email c) = toLowerCase ''A@Acme.com''"
    unfolding second_store_eq e3 by (simp add: acme_def) code_simp
  show ?thesis
    using C4_unique_emails[of second_store "acme_body\<lparr>cb_email := Some ''Info@Globex.COM''\<rparr>"
        "''Info@Globex.COM''" example_lib 30 admin 2]
      C4_unique_emails[of second_store "no_client_body\<lparr>cb_email := Some ''A@Acme.com''\<rparr>"
        "''A@Acme.com''" example_lib 30 admin 2]
      reachable_second_store e1 m1 m2
    by simp
qed

section \<open>The status of a project\<close>

text \<open>
  Claim C9. A project created from a body without \<open>status\<close> is stored with status
  \<open>pending\<close>. In every reachable store the status of every project is
  \<open>pending\<close>, \<open>in-progress\<close> or \<open>completed\<close>, and so is the status of every
  project a list request returns.
\<close>

theorem C9_default_status:
  "(pb_status b = None \<and> createProject s u b now = (Inr q, s') \<longrightarrow>
      p_status q = ''pending'' \<and> q \<in> set (projects s')) \<and>
   (pb_status b = None \<and> route_createProject s u b now = (Inr q, s') \<longrightarrow>
      p_status q = ''pending'' \<and> q \<in> set (projects s')) \<and>
   (reachable s \<longrightarrow>
      (\<forall>x \<in> set (projects s). p_status x \<in> {''pending'', ''in-progress'', ''completed''})) \<and>
   (reachable s \<and> route_getProjects lb s r = Inr pg \<longrightarrow>
      (\<forall>x \<in> set (items pg). p_status x \<in> {''pending'', ''in-progress'', ''completed''}))"
proof (intro conjI impI)
  assume a: "pb_status b = None \<and> createProject s u b now = (Inr q, s')"
  then have "p_status q = ''pending'' \<and> q \<in> set (projects s')"
    using createProject_cases[of s u b now] by auto
  then show "p_status q = ''pending''" and "q \<in> set (projects s')" by simp_all
next
  assume a: "pb_status b = None \<and> route_createProject s u b now = (Inr q, s')"
  have "route_createProject s u b now = createProject s u b now"
    using a by (auto simp: route_createProject_def split: option.splits)
  then have "p_status q = ''pending'' \<and> q \<in> set (projects s')"
    using a createProject_cases[of s u b now] by auto
  then show "p_status q = ''pending''" and "q \<in> set (projects s')" by simp_all
next
  assume "reachable s"
  then have "status_inv s" using reachable_inv by blast
  then show "\<forall>x \<in> set (projects s). p_status x \<in> {''pending'', ''in-progress'', ''completed''}"
    by (simp add: status_inv_def project_statuses_def)
next
  assume a: "reachable s \<and> route_getProjects lb s r = Inr pg"
  then have inv: "status_inv s" using reachable_inv by blast
  from a obtain q where "getProjects lb s q = Inr pg"
    by (auto simp: route_getProjects_def split: sum.splits)
  then have "set (items pg) \<subseteq> set (projects s)" by (rule getProjects_items)
  then show "\<forall>x \<in> set (items pg). p_status x \<in> {''pending'', ''in-progress'', ''completed''}"
    using inv by (auto simp: status_inv_def project_statuses_def)
qed

theorem C9_default_status_witness:
  "reachable first_store \<and>
   createProject first_store creator (website_body\<lparr>pb_clientId := Some (Oid 0)\<rparr>) 40 =
     (Inr (website\<lparr>p_id := 2, p_clientId := 0, p_createdAt := 40, p_updatedAt := 40\<rparr>),
      first_store\<lparr>projects := projects first_store @
          [website\<lparr>p_id := 2, p_clientId := 0, p_createdAt := 40, p_updatedAt := 40\<rparr>],
        next_id := 3\<rparr>) \<and>
   p_status (website\<lparr>p_id := 2, p_clientId := 0, p_createdAt := 40, p_updatedAt := 40\<rparr>) =
     ''pending'' \<and>
   map p_status (projects first_store) = [''pending'']"
proof -
  have e1: "createProject first_store creator (website_body\<lparr>pb_clientId := Some (Oid 0)\<rparr>) 40 =
     (Inr (website\<lparr>p_id := 2, p_clientId := 0, p_createdAt := 40, p_updatedAt := 40\<rparr>),
      first_store\<lparr>projects := projects first_store @
          [website\<lparr>p_id := 2, p_clientId := 0, p_createdAt := 40, p_updatedAt := 40\<rparr>],
        next_id := 3\<rparr>)"
    unfolding first_store_eq by code_simp
  have e2: "map p_status (projects first_store) = [''pending'']"
    unfolding first_store_eq by code_simp
  have e3: "pb_status (website_body\<lparr>pb_clientId := Some (Oid 0)\<rparr>) = None"
    by (simp add: website_body_def)
  show ?thesis
    using C9_default_status[of "website_body\<lparr>pb_clientId := Some (Oid 0)\<rparr>" first_store
        creator 40 "website\<lparr>p_id := 2, p_clientId := 0, p_createdAt := 40, p_updatedAt := 40\<rparr>"
        "first_store\<lparr>projects := projects first_store @
          [website\<lparr>p_id := 2, p_clientId := 0, p_createdAt := 40, p_updatedAt := 40\<rparr>],
        next_id := 3\<rparr>" example_lib no_query
        "\<lparr>items = [], paging = \<lparr>currentPage = 1, totalPages = 0, totalRecords = 0,
           hasNextPage = False, hasPrevPage = False, pg_limit = 10\<rparr>\<rparr>"]
      reachable_first_store e1 e2 e3
    by simp
qed

end
